theory Spec2Isabelle
  imports Main "HOL-Library.Sublist"
begin

section \<open>Strings of the host language\<close>

text \<open>
  The program is TypeScript; its strings are sequences of UTF-16 code units. The model
  uses \<^typ>\<open>string\<close>, whose 8-bit characters are read as the code units U+0000 to U+00FF
  (Latin-1). On that range the built-ins the program calls are as follows:
  \<^item> the class \<open>\s\<close> of a regular expression holds TAB, LF, VT, FF, CR, SPACE and NBSP;
  \<^item> the class \<open>.\<close> holds every character but the line terminators LF and CR;
  \<^item> \<open>toLowerCase\<close> adds 0x20 to A-Z and to U+00C0-U+00DE (U+00D7 apart) and keeps
    every other character.
\<close>

definition js_whitespace :: "char \<Rightarrow> bool" where
  "js_whitespace ch =
     (ch \<in> set [CHR 0x09, CHR 0x0A, CHR 0x0B, CHR 0x0C, CHR 0x0D, CHR 0x20, CHR 0xA0])"

definition js_dot :: "char \<Rightarrow> bool" where
  "js_dot ch = (ch \<noteq> CHR 0x0A \<and> ch \<noteq> CHR 0x0D)"

definition js_uppercase :: "char \<Rightarrow> bool" where
  "js_uppercase ch =
     (let n = (of_char ch :: nat)
      in (65 \<le> n \<and> n \<le> 90) \<or> (192 \<le> n \<and> n \<le> 222 \<and> n \<noteq> 215))"

definition toLowerCase_char :: "char \<Rightarrow> char" where
  "toLowerCase_char ch =
     (if js_uppercase ch then char_of ((of_char ch :: nat) + 32) else ch)"

definition toLowerCase :: "string \<Rightarrow> string" where
  "toLowerCase s = map toLowerCase_char s"

definition startsWith :: "string \<Rightarrow> string \<Rightarrow> bool" where
  "startsWith s p = prefix p s"

fun js_includes :: "string \<Rightarrow> string \<Rightarrow> bool" where
  "js_includes [] sub = (sub = [])"
| "js_includes (x # t) sub = (prefix sub (x # t) \<or> js_includes t sub)"

text \<open>\<open>s.split(sep)\<close> for a separator of one character: never the empty array.\<close>

fun js_split :: "string \<Rightarrow> char \<Rightarrow> string list" where
  "js_split [] sep = [[]]"
| "js_split (x # xs) sep =
     (if x = sep then [] # js_split xs sep
      else (case js_split xs sep of
              [] \<Rightarrow> [[x]]
            | p # ps \<Rightarrow> (x # p) # ps))"

section \<open>Regular expressions\<close>

text \<open>
  The constructs the program's patterns use. \<open>Chr p\<close> is a character class, \<open>Lit\<close> a
  literal, \<open>Star\<close> the greedy and \<open>LazyStar\<close> the lazy \<open>*\<close>, \<open>Group\<close> the capture group 1
  (no pattern of the program has a second one), \<open>Eos\<close> the assertion \<open>$\<close> (no pattern
  has the multiline flag).
\<close>

datatype regex =
    Chr "char \<Rightarrow> bool"
  | Lit string
  | Seq regex regex
  | Alt regex regex
  | Star regex
  | LazyStar regex
  | Group regex
  | Eos

definition Plus :: "regex \<Rightarrow> regex" where
  "Plus r = Seq r (Star r)"

text \<open>
  A matcher state is the input not yet consumed and the text of group 1 (\<open>None\<close>:
  the group has not taken part, \<open>undefined\<close> in the host). \<open>matches r st\<close> lists every
  way the backtracking matcher can match \<open>r\<close> from \<open>st\<close>, in the order in which
  backtracking tries them: its head is the match the host reports. An iteration of a
  star that consumes nothing is rejected, as the host does.
\<close>

type_synonym mstate = "string \<times> string option"

function (sequential) matches :: "regex \<Rightarrow> mstate \<Rightarrow> mstate list" where
  "matches (Chr p) (xs, c) =
     (case xs of [] \<Rightarrow> [] | x # t \<Rightarrow> if p x then [(t, c)] else [])"
| "matches (Lit l) (xs, c) =
     (if prefix l xs then [(drop (length l) xs, c)] else [])"
| "matches (Seq r1 r2) st = concat (map (matches r2) (matches r1 st))"
| "matches (Alt r1 r2) st = matches r1 st @ matches r2 st"
| "matches (Star r) (xs, c) =
     concat (map (\<lambda>st'. if length (fst st') < length xs then matches (Star r) st' else [])
                 (matches r (xs, c)))
     @ [(xs, c)]"
| "matches (LazyStar r) (xs, c) =
     (xs, c) #
     concat (map (\<lambda>st'. if length (fst st') < length xs then matches (LazyStar r) st' else [])
                 (matches r (xs, c)))"
| "matches (Group r) (xs, c) =
     map (\<lambda>st'. (fst st', Some (take (length xs - length (fst st')) xs)))
         (matches r (xs, c))"
| "matches Eos (xs, c) = (if xs = [] then [(xs, c)] else [])"
  by pat_completeness auto
termination
  by (relation "inv_image (less_than <*lex*> less_than) (\<lambda>(r, st). (size r, length (fst st)))")
     auto

text \<open>
  \<open>regex.exec(s)\<close> of a pattern with the global flag, where the argument is the input
  from \<open>lastIndex\<close> on: the leftmost position with a match, there the first match in
  backtracking order. The result is group 1 and the input after the match (the new
  \<open>lastIndex\<close>); \<open>None\<close> is the host's \<open>null\<close>. No pattern of the program looks behind
  its start, so the input before \<open>lastIndex\<close> plays no part.
\<close>

fun regex_exec :: "regex \<Rightarrow> string \<Rightarrow> (string option \<times> string) option" where
  "regex_exec r [] =
     (case matches r ([], None) of
        [] \<Rightarrow> None
      | (rest, cap) # _ \<Rightarrow> Some (cap, rest))"
| "regex_exec r (x # t) =
     (case matches r (x # t, None) of
        [] \<Rightarrow> regex_exec r t
      | (rest, cap) # _ \<Rightarrow> Some (cap, rest))"

text \<open>
  \<open>while ((match = regex.exec(code)) !== null) body(match[1])\<close>. A match that consumes
  nothing leaves \<open>lastIndex\<close> where it was, and the host's loop never ends: the value
  \<open>None\<close> of \<open>exec_loop\<close>.
\<close>

partial_function (option) exec_loop ::
  "regex \<Rightarrow> (string option \<Rightarrow> 's \<Rightarrow> 's) \<Rightarrow> string \<Rightarrow> 's \<Rightarrow> 's option" where
  "exec_loop r body code st =
     (case regex_exec r code of
        None \<Rightarrow> Some st
      | Some (cap, rest) \<Rightarrow> exec_loop r body rest (body cap st))"

text \<open>\<open>s.match(regex)\<close> used as a condition (no global flag): is there a match at all.\<close>

definition regex_test :: "regex \<Rightarrow> string \<Rightarrow> bool" where
  "regex_test r s = (regex_exec r s \<noteq> None)"

text \<open>
  \<open>s.replace(regex, rep)\<close> of a pattern with the global flag and a replacement without
  \<open>$\<close>: every match, leftmost first, is replaced; after a match that consumed nothing
  the host copies one character and goes on behind it.
\<close>

function replace_all :: "regex \<Rightarrow> string \<Rightarrow> string \<Rightarrow> string" where
  "replace_all r rep xs =
     (case matches r (xs, None) of
        [] \<Rightarrow> (case xs of [] \<Rightarrow> [] | x # t \<Rightarrow> x # replace_all r rep t)
      | (rest, cap) # _ \<Rightarrow>
          if length rest < length xs then rep @ replace_all r rep rest
          else rep @ (case xs of [] \<Rightarrow> [] | x # t \<Rightarrow> x # replace_all r rep t))"
  by pat_completeness auto
termination
  by (relation "measure (\<lambda>(r, rep, xs). length xs)") auto

declare replace_all.simps [simp del]

section \<open>The analyzer\<close>

record AnalysisResult =
  dependencies :: "string list"
  localImports :: "string list"

text \<open>A \<open>Set\<close> of the host keeps its elements in the order of their first insertion.\<close>

definition set_add :: "'a \<Rightarrow> 'a list \<Rightarrow> 'a list" where
  "set_add x xs = (if x \<in> set xs then xs else xs @ [x])"

definition set_delete :: "'a \<Rightarrow> 'a list \<Rightarrow> 'a list" where
  "set_delete x xs = removeAll x xs"

definition quote :: "char \<Rightarrow> bool" where
  \<open>quote ch = (ch = CHR 0x27 \<or> ch = CHR ''"'')\<close>

definition not_quote :: "char \<Rightarrow> bool" where
  "not_quote ch = (\<not> quote ch)"

text \<open>\<^verbatim>\<open>/(?:import|require)\s*(?:\(\s*|.*?from\s*)['"]([^'"]+)['"]/g\<close>\<close>

definition importRegex :: regex where
  "importRegex =
     Seq (Alt (Lit ''import'') (Lit ''require''))
    (Seq (Star (Chr js_whitespace))
    (Seq (Alt (Seq (Lit ''('') (Star (Chr js_whitespace)))
              (Seq (LazyStar (Chr js_dot)) (Seq (Lit ''from'') (Star (Chr js_whitespace)))))
    (Seq (Chr quote)
    (Seq (Group (Plus (Chr not_quote)))
         (Chr quote)))))"

text \<open>\<^verbatim>\<open>/import\s+['"]([^'"]+)['"]/g\<close>\<close>

definition sideEffectImportRegex :: regex where
  "sideEffectImportRegex =
     Seq (Lit ''import'')
    (Seq (Plus (Chr js_whitespace))
    (Seq (Chr quote)
    (Seq (Group (Plus (Chr not_quote)))
         (Chr quote))))"

definition cleanPackageName :: "string \<Rightarrow> string option" where
  "cleanPackageName name =
     (if name = [] then None
      else if startsWith name ''.'' \<or> startsWith name ''/'' then None
      else if startsWith name ''@'' then
        (case js_split name CHR ''/'' of
           p0 # p1 # _ \<Rightarrow> Some (p0 @ ''/'' @ p1)
         | _ \<Rightarrow> Some name)
      else
        (case js_split name CHR ''/'' of
           p0 # _ \<Rightarrow> Some p0
         | [] \<Rightarrow> None))"

text \<open>
  The closure \<open>processPath\<close> updates the two sets \<open>dependencies\<close> and \<open>localImports\<close> of
  \<open>analyzeDependencies\<close>; the model passes them as the record of the result.
\<close>

definition processPath :: "string \<Rightarrow> AnalysisResult \<Rightarrow> AnalysisResult" where
  "processPath path st =
     (if path = [] then st
      else if startsWith path ''.'' \<or> startsWith path ''/'' then
        st\<lparr>localImports := set_add path (localImports st)\<rparr>
      else
        (case cleanPackageName path of
           None \<Rightarrow> st
         | Some pkg \<Rightarrow>
             if pkg = [] then st
             else st\<lparr>dependencies := set_add pkg (dependencies st)\<rparr>))"

text \<open>\<open>processPath(match[1])\<close>: an \<open>undefined\<close> group is falsy and leaves the sets alone.\<close>

definition processMatch :: "string option \<Rightarrow> AnalysisResult \<Rightarrow> AnalysisResult" where
  "processMatch cap st = (case cap of None \<Rightarrow> st | Some path \<Rightarrow> processPath path st)"

definition implicitDependencies :: "string \<Rightarrow> AnalysisResult \<Rightarrow> AnalysisResult" where
  "implicitDependencies code st =
     (if js_includes code ''motion.'' \<or> js_includes code ''AnimatePresence''
      then st\<lparr>dependencies := set_add ''framer-motion'' (dependencies st)\<rparr>
      else st)"

definition deleteCoreDependencies :: "AnalysisResult \<Rightarrow> AnalysisResult" where
  "deleteCoreDependencies st =
     st\<lparr>dependencies :=
          set_delete ''path'' (set_delete ''fs'' (set_delete ''react-dom''
            (set_delete ''react'' (dependencies st))))\<rparr>"

definition analyzeDependencies :: "string \<Rightarrow> AnalysisResult option" where
  "analyzeDependencies code =
     (case exec_loop importRegex processMatch code \<lparr>dependencies = [], localImports = []\<rparr> of
        None \<Rightarrow> None
      | Some st1 \<Rightarrow>
          (case exec_loop sideEffectImportRegex processMatch code st1 of
             None \<Rightarrow> None
           | Some st2 \<Rightarrow> Some (deleteCoreDependencies (implicitDependencies code st2))))"

section \<open>The generator\<close>

datatype FileType = JS | JSX | TS | TSX | UNKNOWN

record GeneratedProjectConfig =
  fileName :: string
  fileContent :: string
  projectName :: string
  dependencies :: "string list"
  localImports :: "string list"

text \<open>
  The values the generator hands to \<open>JSON.stringify\<close>. An object is the list of its own
  properties in the order in which the host enumerates them: for an object literal none
  of whose keys is an array index, the order of the source.
\<close>

datatype json =
    JString string
  | JBool bool
  | JArray "json list"
  | JObject "(string \<times> json) list"

fun json_field :: "json \<Rightarrow> string \<Rightarrow> json option" where
  "json_field (JObject ps) k = map_of ps k"
| "json_field _ k = None"

fun json_keys :: "json \<Rightarrow> string list" where
  "json_keys (JObject ps) = map fst ps"
| "json_keys _ = []"

text \<open>
  What a file of the archive holds: a text, or the text \<open>JSON.stringify(v, null, 2)\<close> of
  a value \<open>v\<close>. \<open>JSON.stringify\<close> is the host's; the model keeps the value it is given.
\<close>

datatype file_data = Text string | JsonText json

text \<open>
  The archive under construction: the files of the \<open>JSZip\<close> object by their full names.
  \<open>zip.file(name, data)\<close> stores \<open>data\<close> under \<open>name\<close> and replaces what was there;
  \<open>zip.folder("src")\<close> is a view of the same archive whose \<open>file\<close> puts \<open>src/\<close> before the
  name. (The entries \<open>JSZip\<close> adds for the folders themselves are left out.)
\<close>

type_synonym file_tree = "string \<rightharpoonup> file_data"

definition zip_file :: "string \<Rightarrow> file_data \<Rightarrow> file_tree \<Rightarrow> file_tree" where
  "zip_file name data files = files(name \<mapsto> data)"

definition src_file :: "string \<Rightarrow> file_data \<Rightarrow> file_tree \<Rightarrow> file_tree" where
  "src_file name data files = zip_file (''src/'' @ name) data files"

definition isTS :: "FileType \<Rightarrow> bool" where
  "isTS fileType = (fileType = TS \<or> fileType = TSX)"

definition ext :: "FileType \<Rightarrow> string" where
  "ext fileType = (if isTS fileType then ''ts'' else ''js'')"

definition jsxExt :: "FileType \<Rightarrow> string" where
  "jsxExt fileType = (if isTS fileType then ''tsx'' else ''jsx'')"

subsection \<open>1. Package.json\<close>

definition baseDependencies :: "(string \<times> string) list" where
  "baseDependencies =
     [(''react'', ''^19.0.0''),
      (''react-dom'', ''^19.0.0''),
      (''clsx'', ''^2.1.0''),
      (''tailwind-merge'', ''^2.2.0''),
      (''lucide-react'', ''latest''),
      (''framer-motion'', ''^11.0.0''),
      (''tailwindcss-animate'', ''^1.0.7''),
      (''@tailwindcss/typography'', ''^0.5.10''),
      (''@tailwindcss/forms'', ''^0.5.7''),
      (''date-fns'', ''latest''),
      (''recharts'', ''latest'')]"

text \<open>
  \<open>dependencies[dep]\<close> reads an own property of the object literal or, failing that, a
  property of \<open>Object.prototype\<close>; each of the latter is an object or a function, so
  truthy.
\<close>

definition object_prototype_keys :: "string list" where
  "object_prototype_keys =
     [''constructor'', ''__defineGetter__'', ''__defineSetter__'', ''hasOwnProperty'',
      ''__lookupGetter__'', ''__lookupSetter__'', ''isPrototypeOf'',
      ''propertyIsEnumerable'', ''toString'', ''valueOf'', ''__proto__'',
      ''toLocaleString'']"

definition truthy_property :: "(string \<times> string) list \<Rightarrow> string \<Rightarrow> bool" where
  "truthy_property obj key =
     (case map_of obj key of
        Some v \<Rightarrow> v \<noteq> []
      | None \<Rightarrow> key \<in> set object_prototype_keys)"

fun set_property :: "(string \<times> string) list \<Rightarrow> string \<Rightarrow> string \<Rightarrow> (string \<times> string) list" where
  "set_property [] key v = [(key, v)]"
| "set_property ((k, w) # ps) key v =
     (if k = key then (k, v) # ps else (k, w) # set_property ps key v)"

definition addDependency :: "(string \<times> string) list \<Rightarrow> string \<Rightarrow> (string \<times> string) list" where
  "addDependency obj dep =
     (if \<not> truthy_property obj dep then set_property obj dep ''latest'' else obj)"

text \<open>
  The host enumerates the own properties of an object with the array indices first, in
  ascending order, then the other keys in the order of their creation. An array index is
  the decimal numeral, with no leading zero, of a number up to \<open>2^32 - 2\<close>.
\<close>

definition js_digit :: "char \<Rightarrow> bool" where
  "js_digit ch = (let n = (of_char ch :: nat) in 48 \<le> n \<and> n \<le> 57)"

definition decimal_value :: "string \<Rightarrow> nat" where
  "decimal_value s = foldl (\<lambda>n ch. 10 * n + ((of_char ch :: nat) - 48)) 0 s"

definition array_index :: "string \<Rightarrow> nat option" where
  "array_index key =
     (if key \<noteq> [] \<and> list_all js_digit key \<and> (key = ''0'' \<or> \<not> startsWith key ''0'') \<and>
         decimal_value key \<le> 4294967294
      then Some (decimal_value key) else None)"

definition property_order :: "(string \<times> 'a) list \<Rightarrow> (string \<times> 'a) list" where
  "property_order ps =
     sort_key (\<lambda>(k, v). case array_index k of None \<Rightarrow> 0 | Some n \<Rightarrow> n)
       (filter (\<lambda>(k, v). array_index k \<noteq> None) ps)
     @ filter (\<lambda>(k, v). array_index k = None) ps"

text \<open>
  The object \<open>dependencies\<close> after the \<open>forEach\<close> over \<open>config.dependencies\<close>, as the host
  enumerates it.
\<close>

definition mergedDependencies :: "GeneratedProjectConfig \<Rightarrow> (string \<times> string) list" where
  "mergedDependencies config =
     property_order (foldl addDependency baseDependencies (dependencies config))"

definition devDependencies :: "FileType \<Rightarrow> (string \<times> string) list" where
  "devDependencies fileType =
     [(''@types/react'', ''^19.0.0''),
      (''@types/react-dom'', ''^19.0.0''),
      (''@vitejs/plugin-react'', ''^4.3.4''),
      (''vite'', ''latest''),
      (''tailwindcss'', ''^4.0.0''),
      (''@tailwindcss/postcss'', ''^4.0.0''),
      (''postcss'', ''^8.5.1''),
      (''sass'', ''^1.70.0'')]
     @ (if isTS fileType
        then [(''typescript'', ''^5.7.2''), (''@types/node'', ''^20.0.0'')]
        else [])"

definition string_object :: "(string \<times> string) list \<Rightarrow> json" where
  "string_object ps = JObject (map (\<lambda>(k, v). (k, JString v)) ps)"

text \<open>\<^verbatim>\<open>config.projectName.toLowerCase().replace(/\s+/g, '-')\<close>\<close>

definition packageName :: "GeneratedProjectConfig \<Rightarrow> string" where
  "packageName config =
     replace_all (Plus (Chr js_whitespace)) ''-'' (toLowerCase (projectName config))"

definition packageJson :: "GeneratedProjectConfig \<Rightarrow> FileType \<Rightarrow> json" where
  "packageJson config fileType =
     JObject
       [(''name'', JString (packageName config)),
        (''private'', JBool True),
        (''version'', JString ''0.1.0''),
        (''type'', JString ''module''),
        (''scripts'', string_object
           [(''dev'', ''vite''), (''build'', ''vite build''), (''preview'', ''vite preview'')]),
        (''dependencies'', string_object (mergedDependencies config)),
        (''devDependencies'', string_object (devDependencies fileType))]"

subsection \<open>2. Config files\<close>

definition viteConfig :: string where
  \<open>viteConfig = concat
    [''\<newline>'',
     ''import { defineConfig } from 'vite'\<newline>'',
     ''import react from '@vitejs/plugin-react'\<newline>'',
     ''import path from 'path'\<newline>'',
     ''\<newline>'',
     ''export default defineConfig({\<newline>'',
     ''  plugins: [react()],\<newline>'',
     ''  resolve: {\<newline>'',
     ''    alias: {\<newline>'',
     ''      "@": path.resolve(__dirname, "./src"),\<newline>'',
     ''    },\<newline>'',
     ''  },\<newline>'',
     ''  server: {\<newline>'',
     ''    host: true,\<newline>'',
     ''    port: 3000\<newline>'',
     ''  }\<newline>'',
     ''})\<newline>'']\<close>

definition postcssConfig :: string where
  \<open>postcssConfig = concat
    [''export default { plugins: { '@tailwindcss/postcss': {} } }'']\<close>

definition tsConfig :: json where
  "tsConfig =
     JObject
       [(''compilerOptions'', JObject
           [(''target'', JString ''ES2020''),
            (''useDefineForClassFields'', JBool True),
            (''lib'', JArray [JString ''ES2020'', JString ''DOM'', JString ''DOM.Iterable'']),
            (''module'', JString ''ESNext''),
            (''skipLibCheck'', JBool True),
            (''moduleResolution'', JString ''bundler''),
            (''allowImportingTsExtensions'', JBool True),
            (''resolveJsonModule'', JBool True),
            (''isolatedModules'', JBool True),
            (''noEmit'', JBool True),
            (''jsx'', JString ''react-jsx''),
            (''strict'', JBool True),
            (''noUnusedLocals'', JBool False),
            (''noUnusedParameters'', JBool False),
            (''noFallthroughCasesInSwitch'', JBool True),
            (''baseUrl'', JString ''.''),
            (''paths'', JObject [(''@/*'', JArray [JString ''./src/*''])])]),
        (''include'', JArray [JString ''src'']),
        (''references'', JArray [JObject [(''path'', JString ''./tsconfig.node.json'')]])]"

definition tsConfigNode :: json where
  "tsConfigNode =
     JObject
       [(''compilerOptions'', JObject
           [(''composite'', JBool True),
            (''skipLibCheck'', JBool True),
            (''module'', JString ''ESNext''),
            (''moduleResolution'', JString ''bundler''),
            (''allowSyntheticDefaultImports'', JBool True)]),
        (''include'', JArray [JString ''vite.config.ts''])]"

definition configFiles :: "FileType \<Rightarrow> file_tree \<Rightarrow> file_tree" where
  "configFiles fileType zip0 =
     (let zip1 = zip_file (''vite.config.'' @ ext fileType) (Text viteConfig) zip0;
          zip2 = zip_file (''postcss.config.'' @ ext fileType) (Text postcssConfig) zip1
      in if isTS fileType
         then zip_file ''tsconfig.node.json'' (JsonText tsConfigNode)
                (zip_file ''tsconfig.json'' (JsonText tsConfig) zip2)
         else zip2)"

subsection \<open>3. Source files and index.html\<close>

definition html :: "string \<Rightarrow> string \<Rightarrow> string" where
  \<open>html projectName' jsxExt' = concat
    [''\<newline>'',
     ''<!doctype html>\<newline>'',
     ''<html lang="en">\<newline>'',
     ''  <head>\<newline>'',
     ''    <meta charset="UTF-8" />\<newline>'',
     ''    <meta name="viewport" content="width=device-width, initial-scale=1.0" />\<newline>'',
     ''    <title>'',
     projectName',
     ''</title>\<newline>'',
     ''    <link href="https://fonts.googleapis.com/css2?family=Inter:wght@300;400;500;600;700&family=Vazirmatn:wght@300;400;500;700&display=swap" rel="stylesheet">\<newline>'',
     ''  </head>\<newline>'',
     ''  <body>\<newline>'',
     ''    <div id="root"></div>\<newline>'',
     ''    <script type="module" src="/src/main.'',
     jsxExt',
     ''"></script>\<newline>'',
     ''  </body>\<newline>'',
     ''</html>\<newline>'']\<close>

definition mainContent :: string where
  \<open>mainContent = concat
    [''\<newline>'',
     ''import React from 'react'\<newline>'',
     ''import ReactDOM from 'react-dom/client'\<newline>'',
     ''import App from './App' \<newline>'',
     ''import './index.css'\<newline>'',
     ''\<newline>'',
     ''const root = document.getElementById('root')\<newline>'',
     ''if (root) {\<newline>'',
     ''  ReactDOM.createRoot(root).render(\<newline>'',
     ''    <React.StrictMode>\<newline>'',
     ''      <div className="min-h-screen bg-background text-foreground antialiased font-sans selection:bg-primary/20">\<newline>'',
     ''        <App />\<newline>'',
     ''      </div>\<newline>'',
     ''    </React.StrictMode>,\<newline>'',
     ''  )\<newline>'',
     ''}\<newline>'']\<close>

definition appFileName :: "FileType \<Rightarrow> string" where
  "appFileName fileType = ''App.'' @ (if isTS fileType then ''tsx'' else ''jsx'')"

definition sourceFiles :: "GeneratedProjectConfig \<Rightarrow> FileType \<Rightarrow> file_tree \<Rightarrow> file_tree" where
  "sourceFiles config fileType zip0 =
     (let zip1 = zip_file ''index.html'' (Text (html (projectName config) (jsxExt fileType))) zip0;
          zip2 = src_file (''main.'' @ jsxExt fileType) (Text mainContent) zip1
      in src_file (appFileName fileType) (Text (fileContent config)) zip2)"

subsection \<open>4. Ghost file generator\<close>

text \<open>\<open>s.replace(/^p/, '')\<close> for a literal \<open>p\<close>.\<close>

definition strip_leading :: "string \<Rightarrow> string \<Rightarrow> string" where
  "strip_leading p s = (if prefix p s then drop (length p) s else s)"

definition cleanPath :: "string \<Rightarrow> string" where
  "cleanPath importPath = strip_leading ''/'' (strip_leading ''./'' importPath)"

text \<open>\<open>cleanPath.split('/').pop() || ''\<close>\<close>

definition lastPart :: "string \<Rightarrow> string" where
  "lastPart cleanPath' =
     (case rev (js_split cleanPath' CHR ''/'') of [] \<Rightarrow> [] | p # _ \<Rightarrow> p)"

fun alternatives :: "string list \<Rightarrow> regex" where
  "alternatives [] = Chr (\<lambda>ch. False)"
| "alternatives [l] = Lit l"
| "alternatives (l # ls) = Alt (Lit l) (alternatives ls)"

text \<open>\<^verbatim>\<open>/\.(css|scss|sass|less|styl)$/\<close>\<close>

definition styleRegex :: regex where
  "styleRegex =
     Seq (Lit ''.'')
    (Seq (Group (alternatives [''css'', ''scss'', ''sass'', ''less'', ''styl''])) Eos)"

text \<open>\<^verbatim>\<open>/\.(png|jpg|jpeg|svg|gif|webp|ico|bmp)$/\<close>\<close>

definition imageRegex :: regex where
  "imageRegex =
     Seq (Lit ''.'')
    (Seq (Group (alternatives
       [''png'', ''jpg'', ''jpeg'', ''svg'', ''gif'', ''webp'', ''ico'', ''bmp''])) Eos)"

text \<open>\<^verbatim>\<open>/\.(json)$/\<close>\<close>

definition jsonRegex :: regex where
  "jsonRegex = Seq (Lit ''.'') (Seq (Group (alternatives [''json''])) Eos)"

definition ascii_alnum :: "char \<Rightarrow> bool" where
  "ascii_alnum ch =
     (let n = (of_char ch :: nat)
      in (97 \<le> n \<and> n \<le> 122) \<or> (65 \<le> n \<and> n \<le> 90) \<or> (48 \<le> n \<and> n \<le> 57))"

definition not_alnum :: "char \<Rightarrow> bool" where
  "not_alnum ch = (\<not> ascii_alnum ch)"

text \<open>\<^verbatim>\<open>lastPart.replace(/[^a-zA-Z0-9]/g, '') || 'Component'\<close>\<close>

definition componentName :: "string \<Rightarrow> string" where
  "componentName lastPart' =
     (let n = replace_all (Chr not_alnum) [] lastPart'
      in if n = [] then ''Component'' else n)"

definition stylePlaceholder :: string where
  "stylePlaceholder = ''/* Placeholder style - Generated by CodeToProject */''"

definition imagePlaceholder :: string where
  \<open>imagePlaceholder = concat
    [''<svg xmlns="http://www.w3.org/2000/svg" viewBox="0 0 100 100" style="background:#f1f5f9;"><text x="50" y="50" dominant-baseline="middle" text-anchor="middle" font-family="sans-serif" fill="#64748b" font-weight="bold">IMAGE</text></svg>'']\<close>

definition dummyContent :: "string \<Rightarrow> string \<Rightarrow> string" where
  \<open>dummyContent cleanPath' componentName' = concat
    [''\<newline>'',
     ''import React from 'react';\<newline>'',
     ''// Ghost Component generated to prevent build errors\<newline>'',
     ''// Missing file: '',
     cleanPath',
     ''\<newline>'',
     ''const '',
     componentName',
     '' = (props: any) => (\<newline>'',
     ''  <div className="p-4 border border-dashed border-amber-300 bg-amber-50 rounded text-center">\<newline>'',
     ''    <p className="text-amber-600 font-mono text-xs">Missing Component: '',
     cleanPath',
     ''</p>\<newline>'',
     ''  </div>\<newline>'',
     '');\<newline>'',
     ''export default '',
     componentName',
     '';\<newline>'',
     ''export const '',
     componentName',
     ''Named = '',
     componentName',
     '';\<newline>'']\<close>

text \<open>
  One round of the loop over \<open>config.localImports\<close>: the name under \<open>src\<close> and the data of
  the one file it writes.
\<close>

definition ghostFile :: "FileType \<Rightarrow> string \<Rightarrow> string \<times> file_data" where
  "ghostFile fileType importPath =
     (let cleanPath' = cleanPath importPath;
          lastPart' = lastPart cleanPath';
          component = (\<lambda>extension.
            (if extension \<noteq> [] then cleanPath' @ extension else cleanPath',
             Text (dummyContent cleanPath' (componentName lastPart'))))
      in if js_includes lastPart' ''.'' then
           (if regex_test styleRegex lastPart' then (cleanPath', Text stylePlaceholder)
            else if regex_test imageRegex lastPart' then (cleanPath', Text imagePlaceholder)
            else if regex_test jsonRegex lastPart' then (cleanPath', Text ''{}'')
            else component [])
         else component (if isTS fileType then ''.tsx'' else ''.jsx''))"

definition ghostStep :: "FileType \<Rightarrow> file_tree \<Rightarrow> string \<Rightarrow> file_tree" where
  "ghostStep fileType zip0 importPath =
     src_file (fst (ghostFile fileType importPath)) (snd (ghostFile fileType importPath)) zip0"

definition ghostFiles :: "GeneratedProjectConfig \<Rightarrow> FileType \<Rightarrow> file_tree \<Rightarrow> file_tree" where
  "ghostFiles config fileType zip0 = foldl (ghostStep fileType) zip0 (localImports config)"

subsection \<open>5. CSS\<close>

definition cssContent :: string where
  \<open>cssContent = concat
    [''\<newline>'',
     ''@import "tailwindcss";\<newline>'',
     ''\<newline>'',
     ''@plugin "tailwindcss-animate";\<newline>'',
     ''@plugin "@tailwindcss/typography";\<newline>'',
     ''@plugin "@tailwindcss/forms";\<newline>'',
     ''\<newline>'',
     ''@theme {\<newline>'',
     ''  --font-sans: 'Inter', 'Vazirmatn', sans-serif;\<newline>'',
     ''  --radius-lg: var(--radius);\<newline>'',
     ''  --radius-md: calc(var(--radius) - 2px);\<newline>'',
     ''  --radius-sm: calc(var(--radius) - 4px);\<newline>'',
     ''\<newline>'',
     ''  --color-background: var(--background);\<newline>'',
     ''  --color-foreground: var(--foreground);\<newline>'',
     ''  --color-card: var(--card);\<newline>'',
     ''  --color-card-foreground: var(--card-foreground);\<newline>'',
     ''  --color-popover: var(--popover);\<newline>'',
     ''  --color-popover-foreground: var(--popover-foreground);\<newline>'',
     ''  --color-primary: var(--primary);\<newline>'',
     ''  --color-primary-foreground: var(--primary-foreground);\<newline>'',
     ''  --color-secondary: var(--secondary);\<newline>'',
     ''  --color-secondary-foreground: var(--secondary-foreground);\<newline>'',
     ''  --color-muted: var(--muted);\<newline>'',
     ''  --color-muted-foreground: var(--muted-foreground);\<newline>'',
     ''  --color-accent: var(--accent);\<newline>'',
     ''  --color-accent-foreground: var(--accent-foreground);\<newline>'',
     ''  --color-destructive: var(--destructive);\<newline>'',
     ''  --color-destructive-foreground: var(--destructive-foreground);\<newline>'',
     ''  --color-border: var(--border);\<newline>'',
     ''  --color-input: var(--input);\<newline>'',
     ''  --color-ring: var(--ring);\<newline>'',
     ''\<newline>'',
     ''  --animate-accordion-down: accordion-down 0.2s ease-out;\<newline>'',
     ''  --animate-accordion-up: accordion-up 0.2s ease-out;\<newline>'',
     ''\<newline>'',
     ''  @keyframes accordion-down {\<newline>'',
     ''    from { height: 0 }\<newline>'',
     ''    to { height: var(--radix-accordion-content-height) }\<newline>'',
     ''  }\<newline>'',
     ''  @keyframes accordion-up {\<newline>'',
     ''    from { height: var(--radix-accordion-content-height) }\<newline>'',
     ''    to { height: 0 }\<newline>'',
     ''  }\<newline>'',
     ''}\<newline>'',
     ''\<newline>'',
     ''/*\<newline>'',
     ''  Universal Reset & Variable Definitions\<newline>'',
     ''  Ensures perfect button alignment and consistent theming.\<newline>'',
     ''*/\<newline>'',
     ''@layer base {\<newline>'',
     ''  :root {\<newline>'',
     ''    --background: hsl(0 0% 100%);\<newline>'',
     ''    --foreground: hsl(222.2 84% 4.9%);\<newline>'',
     ''    --card: hsl(0 0% 100%);\<newline>'',
     ''    --card-foreground: hsl(222.2 84% 4.9%);\<newline>'',
     ''    --popover: hsl(0 0% 100%);\<newline>'',
     ''    --popover-foreground: hsl(222.2 84% 4.9%);\<newline>'',
     ''    --primary: hsl(221.2 83.2% 53.3%);\<newline>'',
     ''    --primary-foreground: hsl(210 40% 98%);\<newline>'',
     ''    --secondary: hsl(210 40% 96.1%);\<newline>'',
     ''    --secondary-foreground: hsl(222.2 47.4% 11.2%);\<newline>'',
     ''    --muted: hsl(210 40% 96.1%);\<newline>'',
     ''    --muted-foreground: hsl(215.4 16.3% 46.9%);\<newline>'',
     ''    --accent: hsl(210 40% 96.1%);\<newline>'',
     ''    --accent-foreground: hsl(222.2 47.4% 11.2%);\<newline>'',
     ''    --destructive: hsl(0 84.2% 60.2%);\<newline>'',
     ''    --destructive-foreground: hsl(210 40% 98%);\<newline>'',
     ''    --border: hsl(214.3 31.8% 91.4%);\<newline>'',
     ''    --input: hsl(214.3 31.8% 91.4%);\<newline>'',
     ''    --ring: hsl(221.2 83.2% 53.3%);\<newline>'',
     ''    --radius: 0.5rem;\<newline>'',
     ''  }\<newline>'',
     ''\<newline>'',
     ''  .dark {\<newline>'',
     ''    --background: hsl(222.2 84% 4.9%);\<newline>'',
     ''    --foreground: hsl(210 40% 98%);\<newline>'',
     ''    --card: hsl(222.2 84% 4.9%);\<newline>'',
     ''    --card-foreground: hsl(210 40% 98%);\<newline>'',
     ''    --popover: hsl(222.2 84% 4.9%);\<newline>'',
     ''    --popover-foreground: hsl(210 40% 98%);\<newline>'',
     ''    --primary: hsl(217.2 91.2% 59.8%);\<newline>'',
     ''    --primary-foreground: hsl(222.2 47.4% 11.2%);\<newline>'',
     ''    --secondary: hsl(217.2 32.6% 17.5%);\<newline>'',
     ''    --secondary-foreground: hsl(210 40% 98%);\<newline>'',
     ''    --muted: hsl(217.2 32.6% 17.5%);\<newline>'',
     ''    --muted-foreground: hsl(215 20.2% 65.1%);\<newline>'',
     ''    --accent: hsl(217.2 32.6% 17.5%);\<newline>'',
     ''    --accent-foreground: hsl(210 40% 98%);\<newline>'',
     ''    --destructive: hsl(0 62.8% 30.6%);\<newline>'',
     ''    --destructive-foreground: hsl(210 40% 98%);\<newline>'',
     ''    --border: hsl(217.2 32.6% 17.5%);\<newline>'',
     ''    --input: hsl(217.2 32.6% 17.5%);\<newline>'',
     ''    --ring: hsl(212.7 26.8% 83.9%);\<newline>'',
     ''  }\<newline>'',
     ''\<newline>'',
     ''  * {\<newline>'',
     ''    border-color: var(--border);\<newline>'',
     ''  }\<newline>'',
     ''\<newline>'',
     ''  body {\<newline>'',
     ''    background-color: var(--background);\<newline>'',
     ''    color: var(--foreground);\<newline>'',
     ''    font-feature-settings: "rlig" 1, "calt" 1;\<newline>'',
     ''    -webkit-font-smoothing: antialiased;\<newline>'',
     ''    -moz-osx-font-smoothing: grayscale;\<newline>'',
     ''  }\<newline>'',
     ''\<newline>'',
     ''  /* \<newline>'',
     ''    CRITICAL: Enforce flexbox centering for all buttons \<newline>'',
     ''    This fixes the "crooked button" issue caused by line-height/vertical-align\<newline>'',
     ''  */\<newline>'',
     ''  button, \<newline>'',
     ''  [role="button"],\<newline>'',
     ''  input[type="submit"],\<newline>'',
     ''  input[type="reset"],\<newline>'',
     ''  input[type="button"],\<newline>'',
     ''  .btn {\<newline>'',
     ''    display: inline-flex;\<newline>'',
     ''    align-items: center;\<newline>'',
     ''    justify-content: center;\<newline>'',
     ''    white-space: nowrap;\<newline>'',
     ''    vertical-align: middle;\<newline>'',
     ''  }\<newline>'',
     ''}\<newline>'']\<close>

text \<open>
  The files of the archive \<open>generateProjectZip\<close> builds, in the order of the source. The
  archive is then serialised by \<open>zip.generateAsync\<close>, which is \<open>JSZip\<close>'s; the guard
  \<open>if (!src) throw\<close> never fires, as \<open>zip.folder\<close> returns an object.
\<close>

definition generateProjectZip :: "GeneratedProjectConfig \<Rightarrow> FileType \<Rightarrow> file_tree" where
  "generateProjectZip config fileType =
     (let zip1 = zip_file ''package.json'' (JsonText (packageJson config fileType)) Map.empty;
          zip2 = configFiles fileType zip1;
          zip3 = sourceFiles config fileType zip2;
          zip4 = ghostFiles config fileType zip3
      in src_file ''index.css'' (Text cssContent) zip4)"

section \<open>Notions of the specification\<close>

text \<open>
  The paths the two loops of \<open>analyzeDependencies\<close> hand to \<open>processPath\<close>, in the order
  of the calls: the same loops, run with a body that records its argument.
\<close>

definition extractedPaths :: "string \<Rightarrow> string option list option" where
  "extractedPaths code =
     (case exec_loop importRegex (\<lambda>cap acc. acc @ [cap]) code [] of
        None \<Rightarrow> None
      | Some caps \<Rightarrow> exec_loop sideEffectImportRegex (\<lambda>cap acc. acc @ [cap]) code caps)"

text \<open>A local import begins with \<open>.\<close> or \<open>/\<close>; every other path names a package.\<close>

definition isLocal :: "string \<Rightarrow> bool" where
  "isLocal path = (startsWith path ''.'' \<or> startsWith path ''/'')"

text \<open>
  The installable root of a package path, in the words of the specification: the first
  two \<open>/\<close>-delimited segments of a scoped path (one beginning with \<open>@\<close>), the first segment
  of any other.
\<close>

fun join_segments :: "string list \<Rightarrow> string" where
  "join_segments [] = []"
| "join_segments [p] = p"
| "join_segments (p # ps) = p @ ''/'' @ join_segments ps"

definition packageRoot :: "string \<Rightarrow> string" where
  "packageRoot path =
     join_segments (take (if startsWith path ''@'' then 2 else 1) (js_split path CHR ''/''))"

text \<open>An import-like token: the word \<open>import\<close> or \<open>require\<close> anywhere in the text.\<close>

definition importLikeTokens :: "string \<Rightarrow> bool" where
  "importLikeTokens code = (js_includes code ''import'' \<or> js_includes code ''require'')"

text \<open>The package the markers \<open>motion.\<close> and \<open>AnimatePresence\<close> stand for.\<close>

definition implicitPackages :: "string \<Rightarrow> string set" where
  "implicitPackages code =
     (if js_includes code ''motion.'' \<or> js_includes code ''AnimatePresence''
      then {''framer-motion''} else {})"

definition denylist :: "string set" where
  "denylist = {''react'', ''react-dom'', ''fs'', ''path''}"

text \<open>The extension of a path segment: what follows its last \<open>.\<close>.\<close>

definition extension :: "string \<Rightarrow> string" where
  "extension s = rev (takeWhile (\<lambda>ch. ch \<noteq> CHR ''.'') (rev s))"

definition recognizedExtensions :: "string list" where
  "recognizedExtensions =
     [''css'', ''scss'', ''sass'', ''less'', ''styl'',
      ''png'', ''jpg'', ''jpeg'', ''svg'', ''gif'', ''webp'', ''ico'', ''bmp'',
      ''json'']"


text \<open>The variant extension of a component file.\<close>

definition componentExtension :: "FileType \<Rightarrow> string" where
  "componentExtension fileType = (if fileType = TS \<or> fileType = TSX then ''.tsx'' else ''.jsx'')"

subsection \<open>Sample inputs\<close>

definition coreImports :: string where
  \<open>coreImports = ''import R from "react"\<newline>require("fs")''\<close>

definition mixedImports :: string where
  \<open>mixedImports = ''import a from "./a/b"\<newline>import d from "lodash/debounce"''\<close>

definition sampleConfig :: GeneratedProjectConfig where
  "sampleConfig =
     \<lparr>fileName = ''Widget.tsx'',
      fileContent = ''export default function App() { return null }'',
      projectName = ''My Cool App!!'',
      dependencies = [''lodash''],
      localImports = [''./components/Button'', ''./Comp.jsx'', ''./styles/site.css'']\<rparr>"

definition collidingConfig :: GeneratedProjectConfig where
  "collidingConfig =
     \<lparr>fileName = ''Widget.tsx'',
      fileContent = ''export default function App() { return null }'',
      projectName = ''demo'',
      dependencies = [],
      localImports = [''./Foo'', ''./Foo.tsx'']\<rparr>"

definition overwrittenConfig :: GeneratedProjectConfig where
  "overwrittenConfig =
     \<lparr>fileName = ''Widget.tsx'',
      fileContent = ''export default function App() { return null }'',
      projectName = ''demo'',
      dependencies = [],
      localImports = [''./Foo.tsx'', ''./Foo'']\<rparr>"

definition nestedConfig :: GeneratedProjectConfig where
  "nestedConfig =
     \<lparr>fileName = ''Widget.tsx'',
      fileContent = ''export default function App() { return null }'',
      projectName = ''demo'',
      dependencies = [''7'', ''lodash''],
      localImports = [''./widgets/Comp.jsx'', ''./widgets/Comp'', ''./widgets/theme.css'']\<rparr>"

section \<open>Properties of the matcher\<close>

lemma matches_suffix:
  "st' \<in> set (matches r st) \<Longrightarrow> suffix (fst st') (fst st)"
proof (induction r st arbitrary: st' rule: matches.induct)
  case (1 p xs c)
  then show ?case by (auto split: list.splits if_splits simp: suffix_Cons)
next
  case (2 l xs c)
  then show ?case by (auto split: if_splits simp: suffix_drop)
next
  case (3 r1 r2 st)
  from "3.prems" obtain mid where m: "mid \<in> set (matches r1 st)" "st' \<in> set (matches r2 mid)"
    by auto
  from "3.IH"(1)[OF m(1)] "3.IH"(2)[OF m(1) m(2)] show ?case
    by (rule suffix_order.trans[rotated])
next
  case (4 r1 r2 st)
  from "4.prems" have "st' \<in> set (matches r1 st) \<or> st' \<in> set (matches r2 st)" by simp
  then show ?case using "4.IH" by blast
next
  case (5 r xs c)
  from "5.prems" consider "st' = (xs, c)"
    | mid where "mid \<in> set (matches r (xs, c))" "length (fst mid) < length xs"
                "st' \<in> set (matches (Star r) mid)"
    by (auto split: if_splits)
  then show ?case
  proof cases
    case 1
    then show ?thesis by simp
  next
    case 2
    from "5.IH"(1)[OF 2(1)] "5.IH"(2)[OF 2(1) 2(2) 2(3)] show ?thesis
      by (auto intro: suffix_order.trans)
  qed
next
  case (6 r xs c)
  from "6.prems" consider "st' = (xs, c)"
    | mid where "mid \<in> set (matches r (xs, c))" "length (fst mid) < length xs"
                "st' \<in> set (matches (LazyStar r) mid)"
    by (auto split: if_splits)
  then show ?case
  proof cases
    case 1
    then show ?thesis by simp
  next
    case 2
    from "6.IH"(1)[OF 2(1)] "6.IH"(2)[OF 2(1) 2(2) 2(3)] show ?thesis
      by (auto intro: suffix_order.trans)
  qed
next
  case (7 r xs c)
  then show ?case by auto
next
  case (8 xs c)
  then show ?case by (auto split: if_splits)
qed

lemma matches_length:
  "st' \<in> set (matches r st) \<Longrightarrow> length (fst st') \<le> length (fst st)"
  by (drule matches_suffix) (rule suffix_length_le)

lemma matches_Seq_shorter:
  assumes "\<And>mid. mid \<in> set (matches r1 st) \<Longrightarrow> length (fst mid) < length (fst st)"
    and "st' \<in> set (matches (Seq r1 r2) st)"
  shows "length (fst st') < length (fst st)"
proof -
  from assms(2) obtain mid where m: "mid \<in> set (matches r1 st)" "st' \<in> set (matches r2 mid)"
    by auto
  from matches_length[OF m(2)] assms(1)[OF m(1)] show ?thesis by simp
qed

lemma matches_Lit_shorter:
  "l \<noteq> [] \<Longrightarrow> mid \<in> set (matches (Lit l) st) \<Longrightarrow> length (fst mid) < length (fst st)"
  by (cases st) (auto split: if_splits simp: prefix_def)

lemma regex_exec_Some:
  "regex_exec r xs = Some (cap, rest) \<Longrightarrow>
   \<exists>t. suffix t xs \<and> (rest, cap) \<in> set (matches r (t, None))"
proof (induction xs)
  case Nil
  then show ?case by (auto split: list.splits)
next
  case (Cons x xs)
  show ?case
  proof (cases "matches r (x # xs, None)")
    case Nil
    with Cons.prems have "regex_exec r xs = Some (cap, rest)" by simp
    from Cons.IH[OF this] show ?thesis by (auto simp: suffix_Cons)
  next
    case (Cons m ms)
    with Cons.prems have "(rest, cap) \<in> set (matches r (x # xs, None))"
      by (auto split: prod.splits)
    then show ?thesis by blast
  qed
qed

lemma regex_exec_None:
  "regex_exec r xs = None \<longleftrightarrow> (\<forall>t. suffix t xs \<longrightarrow> matches r (t, None) = [])"
proof (induction xs)
  case Nil
  then show ?case by (auto split: list.splits)
next
  case (Cons x xs)
  then show ?case by (auto split: list.splits simp: suffix_Cons)
qed

lemma regex_exec_shorter:
  assumes "\<forall>st st'. st' \<in> set (matches r st) \<longrightarrow> length (fst st') < length (fst st)"
    and "regex_exec r xs = Some (cap, rest)"
  shows "length rest < length xs"
proof -
  from regex_exec_Some[OF assms(2)] obtain t where
    t: "suffix t xs" "(rest, cap) \<in> set (matches r (t, None))" by blast
  from assms(1) t(2) have "length (fst (rest, cap)) < length (fst (t, None :: string option))"
    by blast
  with suffix_length_le[OF t(1)] show ?thesis by simp
qed

lemma exec_loop_fold:
  assumes prog: "\<forall>st st'. st' \<in> set (matches r st) \<longrightarrow> length (fst st') < length (fst st)"
  shows "\<exists>caps.
           (\<forall>body (st :: 'a). exec_loop r body xs st = Some (foldl (\<lambda>s c. body c s) st caps)) \<and>
           (\<forall>body (st :: 'b). exec_loop r body xs st = Some (foldl (\<lambda>s c. body c s) st caps))"
proof (induction xs rule: length_induct)
  case (1 xs)
  show ?case
  proof (cases "regex_exec r xs")
    case None
    have "\<forall>body (st :: 'a). exec_loop r body xs st = Some (foldl (\<lambda>s c. body c s) st [])"
      using None by (subst exec_loop.simps) simp
    moreover
    have "\<forall>body (st :: 'b). exec_loop r body xs st = Some (foldl (\<lambda>s c. body c s) st [])"
      using None by (subst exec_loop.simps) simp
    ultimately show ?thesis by blast
  next
    case (Some m)
    obtain cap rest where m: "m = (cap, rest)" by (cases m)
    from regex_exec_shorter[OF prog] Some m have "length rest < length xs" by blast
    with 1 obtain caps where
      caps: "\<forall>body (st :: 'a). exec_loop r body rest st = Some (foldl (\<lambda>s c. body c s) st caps)"
            "\<forall>body (st :: 'b). exec_loop r body rest st = Some (foldl (\<lambda>s c. body c s) st caps)"
      by blast
    have "\<forall>body (st :: 'a). exec_loop r body xs st = Some (foldl (\<lambda>s c. body c s) st (cap # caps))"
      using Some m caps(1) by (subst exec_loop.simps) simp
    moreover
    have "\<forall>body (st :: 'b). exec_loop r body xs st = Some (foldl (\<lambda>s c. body c s) st (cap # caps))"
      using Some m caps(2) by (subst exec_loop.simps) simp
    ultimately show ?thesis by blast
  qed
qed

lemma js_includes_iff: "js_includes s sub \<longleftrightarrow> (\<exists>t. suffix t s \<and> prefix sub t)"
  by (induction s) (auto simp: suffix_Cons)

lemma nonempty_iff_member: "xs \<noteq> [] \<longleftrightarrow> (\<exists>x. x \<in> set xs)"
  by (cases xs) auto

lemma in_matches_Seq:
  "st' \<in> set (matches (Seq r1 r2) st) \<longleftrightarrow>
     (\<exists>mid. mid \<in> set (matches r1 st) \<and> st' \<in> set (matches r2 mid))"
  by (auto simp del: matches.simps simp: matches.simps(3))

lemma in_matches_Lit:
  "st' \<in> set (matches (Lit l) st) \<longleftrightarrow>
     prefix l (fst st) \<and> st' = (drop (length l) (fst st), snd st)"
  by (cases st) auto

lemma in_matches_Eos:
  "st' \<in> set (matches Eos st) \<longleftrightarrow> fst st = [] \<and> st' = st"
  by (cases st) auto

lemma in_matches_Group:
  "st' \<in> set (matches (Group r) st) \<longleftrightarrow>
     (\<exists>m. m \<in> set (matches r st) \<and>
        st' = (fst m, Some (take (length (fst st) - length (fst m)) (fst st))))"
  by (cases st) (force simp del: matches.simps simp: matches.simps(7) image_iff)

lemma matches_Star_Chr_Nil: "matches (Star (Chr p)) ([], c) = [([], c)]"
  by simp








lemma replace_all_Chr_filter:
  "replace_all (Chr p) [] s = filter (\<lambda>ch. \<not> p ch) s"
proof (induction s)
  case Nil
  show ?case by (subst replace_all.simps) simp
next
  case (Cons x t)
  then show ?case by (subst replace_all.simps) simp
qed

lemma matches_alternatives:
  "matches (alternatives exts) (xs, c) =
     concat (map (\<lambda>e. if prefix e xs then [(drop (length e) xs, c)] else []) exts)"
proof (induction exts rule: alternatives.induct)
  case 1
  show ?case by (cases xs) simp_all
next
  case (2 l)
  show ?case by simp
next
  case (3 l v va)
  then show ?case by simp
qed

lemma in_matches_alternatives:
  "st' \<in> set (matches (alternatives exts) st) \<longleftrightarrow>
     (\<exists>e. e \<in> set exts \<and> prefix e (fst st) \<and> st' = (drop (length e) (fst st), snd st))"
  by (cases st) (auto simp: matches_alternatives simp del: alternatives.simps)

lemma prefix_drop_Nil: "prefix e u \<and> drop (length e) u = [] \<longleftrightarrow> e = u"
  by (auto simp: prefix_def)

lemma matches_Group_Eos:
  "matches (Seq (Group (alternatives exts)) Eos) st \<noteq> [] \<longleftrightarrow> fst st \<in> set exts"
proof -
  have "matches (Seq (Group (alternatives exts)) Eos) st \<noteq> [] \<longleftrightarrow>
        (\<exists>e. e \<in> set exts \<and> prefix e (fst st) \<and> drop (length e) (fst st) = [])"
    by (simp only: nonempty_iff_member in_matches_Seq in_matches_Group
          in_matches_alternatives in_matches_Eos) auto
  also have "\<dots> \<longleftrightarrow> (\<exists>e. e \<in> set exts \<and> e = fst st)"
    using prefix_drop_Nil[of _ "fst st"] by blast
  finally show ?thesis by simp
qed

lemma matches_extension_regex:
  "matches (Seq (Lit ''.'') (Seq (Group (alternatives exts)) Eos)) (t, c) \<noteq> [] \<longleftrightarrow>
     (\<exists>e \<in> set exts. t = CHR ''.'' # e)"
proof -
  have "matches (Seq (Lit ''.'') (Seq (Group (alternatives exts)) Eos)) (t, c) \<noteq> [] \<longleftrightarrow>
        (\<exists>mid. mid \<in> set (matches (Lit ''.'') (t, c)) \<and>
           matches (Seq (Group (alternatives exts)) Eos) mid \<noteq> [])"
    by (simp only: nonempty_iff_member in_matches_Seq[of _ "Lit ''.''"]) blast
  also have "\<dots> \<longleftrightarrow> (prefix ''.'' t \<and> drop 1 t \<in> set exts)"
    by (simp only: in_matches_Lit matches_Group_Eos) auto
  also have "\<dots> \<longleftrightarrow> (\<exists>e \<in> set exts. t = CHR ''.'' # e)"
    by (cases t) auto
  finally show ?thesis .
qed

lemma regex_test_extension:
  "regex_test (Seq (Lit ''.'') (Seq (Group (alternatives exts)) Eos)) s \<longleftrightarrow>
     (\<exists>e \<in> set exts. suffix (CHR ''.'' # e) s)"
proof -
  have "regex_test (Seq (Lit ''.'') (Seq (Group (alternatives exts)) Eos)) s \<longleftrightarrow>
     (\<exists>t. suffix t s \<and>
        matches (Seq (Lit ''.'') (Seq (Group (alternatives exts)) Eos)) (t, None) \<noteq> [])"
    unfolding regex_test_def regex_exec_None by blast
  then show ?thesis unfolding matches_extension_regex by blast
qed

lemma takeWhile_not_member: "c \<notin> set xs \<Longrightarrow> takeWhile (\<lambda>ch. ch \<noteq> c) xs = xs"
  by (induction xs) auto

lemma extension_suffix:
  assumes "CHR ''.'' \<notin> set e"
  shows "suffix (CHR ''.'' # e) s \<longleftrightarrow> CHR ''.'' \<in> set s \<and> extension s = e"
proof
  assume "suffix (CHR ''.'' # e) s"
  then obtain pre where s: "s = pre @ CHR ''.'' # e" by (auto simp: suffix_def)
  with assms show "CHR ''.'' \<in> set s \<and> extension s = e"
    by (simp add: extension_def takeWhile_tail takeWhile_not_member)
next
  assume a: "CHR ''.'' \<in> set s \<and> extension s = e"
  then have "CHR ''.'' \<in> set (rev s)" by simp
  from split_list_first[OF this]
  obtain ys zs where r: "rev s = ys @ CHR ''.'' # zs" "CHR ''.'' \<notin> set ys"
    by blast
  from r(1) have "rev (rev s) = rev (ys @ CHR ''.'' # zs)" by simp
  then have s: "s = rev zs @ CHR ''.'' # rev ys" by simp
  have "extension s = rev ys"
    unfolding extension_def r(1) using r(2)
    by (simp add: takeWhile_tail takeWhile_not_member)
  with a s show "suffix (CHR ''.'' # e) s" by (auto simp: suffix_def)
qed

lemma extension_is_suffix: "suffix (extension s) s"
proof -
  have "s = rev (dropWhile (\<lambda>ch. ch \<noteq> CHR ''.'') (rev s)) @ extension s"
    unfolding extension_def rev_append[symmetric] takeWhile_dropWhile_id by simp
  then show ?thesis unfolding suffix_def by blast
qed

lemma filter_suffix: "suffix xs ys \<Longrightarrow> suffix (filter P xs) (filter P ys)"
  by (auto simp: suffix_def)

section \<open>Properties of the analyzer\<close>

lemma importRegex_shorter:
  "\<forall>st st'. st' \<in> set (matches importRegex st) \<longrightarrow> length (fst st') < length (fst st)"
  unfolding importRegex_def
  by (intro allI impI, erule matches_Seq_shorter[rotated])
     (auto dest: matches_Lit_shorter[rotated])

lemma sideEffectImportRegex_shorter:
  "\<forall>st st'. st' \<in> set (matches sideEffectImportRegex st) \<longrightarrow>
     length (fst st') < length (fst st)"
  unfolding sideEffectImportRegex_def
  by (intro allI impI, erule matches_Seq_shorter[rotated])
     (auto dest: matches_Lit_shorter[rotated])

lemma snoc_fold: "foldl (\<lambda>s c. s @ [c]) acc caps = acc @ caps"
  by (induction caps arbitrary: acc) auto

lemma analyze_fold:
  "\<exists>caps. extractedPaths code = Some caps \<and>
     analyzeDependencies code =
       Some (deleteCoreDependencies (implicitDependencies code
         (foldl (\<lambda>s c. processMatch c s)
            \<lparr>AnalysisResult.dependencies = [], localImports = []\<rparr> caps)))"
proof -
  let ?snoc = "\<lambda>(cap :: string option) acc. acc @ [cap]"
  let ?init = "\<lparr>AnalysisResult.dependencies = [], localImports = []\<rparr>"
  from exec_loop_fold[OF importRegex_shorter, of code, where ?'a = AnalysisResult
      and ?'b = "string option list"]
  obtain ps where
    ps1: "\<forall>body (st :: AnalysisResult).
            exec_loop importRegex body code st = Some (foldl (\<lambda>s c. body c s) st ps)" and
    ps2: "\<forall>body (st :: string option list).
            exec_loop importRegex body code st = Some (foldl (\<lambda>s c. body c s) st ps)"
    by (elim exE conjE)
  from exec_loop_fold[OF sideEffectImportRegex_shorter, of code,
      where ?'a = AnalysisResult and ?'b = "string option list"]
  obtain qs where
    qs1: "\<forall>body (st :: AnalysisResult).
            exec_loop sideEffectImportRegex body code st = Some (foldl (\<lambda>s c. body c s) st qs)" and
    qs2: "\<forall>body (st :: string option list).
            exec_loop sideEffectImportRegex body code st = Some (foldl (\<lambda>s c. body c s) st qs)"
    by (elim exE conjE)
  have a: "exec_loop importRegex ?snoc code [] = Some ps"
    using ps2[rule_format, of ?snoc "[]"] by (simp only: snoc_fold append_Nil)
  have b: "exec_loop sideEffectImportRegex ?snoc code ps = Some (ps @ qs)"
    using qs2[rule_format, of ?snoc ps] by (simp only: snoc_fold)
  have c: "exec_loop importRegex processMatch code ?init =
             Some (foldl (\<lambda>s c. processMatch c s) ?init ps)"
    by (rule ps1[rule_format])
  have d: "exec_loop sideEffectImportRegex processMatch code
             (foldl (\<lambda>s c. processMatch c s) ?init ps) =
             Some (foldl (\<lambda>s c. processMatch c s) ?init (ps @ qs))"
    unfolding foldl_append by (rule qs1[rule_format])
  have "extractedPaths code = Some (ps @ qs)"
    by (simp add: extractedPaths_def a b)
  moreover have "analyzeDependencies code =
       Some (deleteCoreDependencies (implicitDependencies code
         (foldl (\<lambda>s c. processMatch c s) ?init (ps @ qs))))"
    by (simp add: analyzeDependencies_def c d)
  ultimately show ?thesis by blast
qed

lemma js_split_nonempty: "js_split s sep \<noteq> []"
  by (induction s) (auto split: list.splits)

lemma join_split: "join_segments (js_split s CHR ''/'') = s"
proof (induction s)
  case Nil
  then show ?case by simp
next
  case (Cons x s)
  show ?case
  proof (cases "x = CHR ''/''")
    case True
    with Cons show ?thesis
      by (cases "js_split s CHR ''/''") (auto simp: js_split_nonempty)
  next
    case False
    with Cons show ?thesis
      by (cases "js_split s CHR ''/''"; cases "tl (js_split s CHR ''/'')")
         (auto simp: js_split_nonempty)
  qed
qed

lemma js_split_Cons:
  "x \<noteq> sep \<Longrightarrow> \<exists>p ps. js_split (x # xs) sep = (x # p) # ps"
  by (cases "js_split xs sep") (auto simp: js_split_nonempty)

lemma cleanPackageName_external:
  assumes "path \<noteq> []" "\<not> isLocal path"
  shows "cleanPackageName path = Some (packageRoot path)"
    and "packageRoot path \<noteq> []" and "\<not> isLocal (packageRoot path)"
proof -
  from assms obtain x xs where p: "path = x # xs" "x \<noteq> CHR ''.''" "x \<noteq> CHR ''/''"
    by (cases path) (auto simp: isLocal_def startsWith_def)
  from js_split_Cons[OF p(3)] obtain q qs where s: "js_split path CHR ''/'' = (x # q) # qs"
    unfolding p(1) by blast
  show "cleanPackageName path = Some (packageRoot path)"
  proof (cases qs)
    case Nil
    with s join_split[of path] have "x # q = path" by simp
    with s Nil p show ?thesis
      by (simp add: cleanPackageName_def packageRoot_def startsWith_def)
  next
    case (Cons q1 qs')
    with s p show ?thesis
      by (simp add: cleanPackageName_def packageRoot_def startsWith_def)
  qed
  show "packageRoot path \<noteq> []"
    using s by (cases qs) (simp_all add: packageRoot_def)
  show "\<not> isLocal (packageRoot path)"
    using s p by (cases qs) (simp_all add: packageRoot_def isLocal_def startsWith_def)
qed

lemma set_set_add: "set (set_add x xs) = insert x (set xs)"
  by (auto simp: set_add_def)

lemma processMatch_localImports:
  "set (AnalysisResult.localImports (processMatch cap st)) =
     set (AnalysisResult.localImports st) \<union>
     {p. cap = Some p \<and> p \<noteq> [] \<and> isLocal p}"
  by (cases cap)
     (auto simp: processMatch_def processPath_def set_set_add isLocal_def
           split: option.splits)

lemma processMatch_dependencies:
  "set (AnalysisResult.dependencies (processMatch cap st)) =
     set (AnalysisResult.dependencies st) \<union>
     {packageRoot p | p. cap = Some p \<and> p \<noteq> [] \<and> \<not> isLocal p}"
proof (cases cap)
  case None
  then show ?thesis by (simp add: processMatch_def)
next
  case (Some p)
  show ?thesis
  proof (cases "p \<noteq> [] \<and> \<not> isLocal p")
    case True
    with cleanPackageName_external[of p] Some show ?thesis
      by (auto simp: processMatch_def processPath_def set_set_add isLocal_def)
  next
    case False
    with Some show ?thesis
      by (auto simp: processMatch_def processPath_def isLocal_def)
  qed
qed

lemma fold_localImports:
  "set (AnalysisResult.localImports (foldl (\<lambda>s c. processMatch c s) st caps)) =
     set (AnalysisResult.localImports st) \<union>
     {p. Some p \<in> set caps \<and> p \<noteq> [] \<and> isLocal p}"
  by (induction caps arbitrary: st) (auto simp: processMatch_localImports)

lemma fold_dependencies:
  "set (AnalysisResult.dependencies (foldl (\<lambda>s c. processMatch c s) st caps)) =
     set (AnalysisResult.dependencies st) \<union>
     {packageRoot p | p. Some p \<in> set caps \<and> p \<noteq> [] \<and> \<not> isLocal p}"
  by (induction caps arbitrary: st) (auto simp: processMatch_dependencies)

lemma finish_localImports:
  "AnalysisResult.localImports (deleteCoreDependencies (implicitDependencies code st)) =
     AnalysisResult.localImports st"
  by (simp add: deleteCoreDependencies_def implicitDependencies_def)

lemma finish_dependencies:
  "set (AnalysisResult.dependencies (deleteCoreDependencies (implicitDependencies code st))) =
     (set (AnalysisResult.dependencies st) \<union> implicitPackages code) - denylist"
  by (auto simp: deleteCoreDependencies_def implicitDependencies_def set_delete_def
        set_set_add implicitPackages_def denylist_def)

lemma analyze_sets:
  assumes "analyzeDependencies code = Some res" "extractedPaths code = Some caps"
  shows "set (AnalysisResult.localImports res) = {p. Some p \<in> set caps \<and> p \<noteq> [] \<and> isLocal p}"
    and "set (AnalysisResult.dependencies res) =
          ({packageRoot p | p. Some p \<in> set caps \<and> p \<noteq> [] \<and> \<not> isLocal p}
            \<union> implicitPackages code) - denylist"
proof -
  from analyze_fold[of code] assms have
    res: "res = deleteCoreDependencies (implicitDependencies code
         (foldl (\<lambda>s c. processMatch c s)
            \<lparr>AnalysisResult.dependencies = [], localImports = []\<rparr> caps))"
    by auto
  show "set (AnalysisResult.localImports res) = {p. Some p \<in> set caps \<and> p \<noteq> [] \<and> isLocal p}"
    unfolding res finish_localImports fold_localImports by simp
  show "set (AnalysisResult.dependencies res) =
          ({packageRoot p | p. Some p \<in> set caps \<and> p \<noteq> [] \<and> \<not> isLocal p}
            \<union> implicitPackages code) - denylist"
    unfolding res finish_dependencies fold_dependencies by simp
qed

lemma analyze_total: "\<exists>res. analyzeDependencies code = Some res"
  using analyze_fold[of code] by blast

lemma no_tokens_no_match:
  assumes "\<not> js_includes code l1" "\<not> js_includes code l2"
  shows "regex_exec (Seq (Alt (Lit l1) (Lit l2)) r) code = None"
  using assms by (auto simp: regex_exec_None js_includes_iff)

lemma no_token_no_match:
  assumes "\<not> js_includes code l"
  shows "regex_exec (Seq (Lit l) r) code = None"
  using assms by (auto simp: regex_exec_None js_includes_iff)

lemma analyze_no_tokens:
  assumes "\<not> importLikeTokens code"
  shows "analyzeDependencies code =
     Some (deleteCoreDependencies (implicitDependencies code
        \<lparr>AnalysisResult.dependencies = [], localImports = []\<rparr>))"
proof -
  from assms have n: "\<not> js_includes code ''import''" "\<not> js_includes code ''require''"
    by (auto simp: importLikeTokens_def)
  have a: "regex_exec importRegex code = None"
    unfolding importRegex_def by (rule no_tokens_no_match[OF n])
  have b: "regex_exec sideEffectImportRegex code = None"
    unfolding sideEffectImportRegex_def by (rule no_token_no_match[OF n(1)])
  have c: "\<And>st :: AnalysisResult. exec_loop importRegex processMatch code st = Some st"
    by (subst exec_loop.simps) (simp add: a)
  have d: "\<And>st :: AnalysisResult. exec_loop sideEffectImportRegex processMatch code st = Some st"
    by (subst exec_loop.simps) (simp add: b)
  show ?thesis by (simp add: analyzeDependencies_def c d)
qed

lemma isLocal_nonempty: "isLocal p \<Longrightarrow> p \<noteq> []"
  by (auto simp: isLocal_def startsWith_def)

lemma implicit_not_local: "d \<in> implicitPackages code \<Longrightarrow> \<not> isLocal d"
  by (auto simp: implicitPackages_def isLocal_def startsWith_def split: if_splits)

lemmas regex_eval = importRegex_def sideEffectImportRegex_def Plus_def js_whitespace_def
  js_dot_def quote_def not_quote_def processMatch_def processPath_def cleanPackageName_def
  startsWith_def set_add_def

lemma mixed_analyze:
  "analyzeDependencies mixedImports =
     Some \<lparr>AnalysisResult.dependencies = [''lodash''], localImports = [''./a/b'']\<rparr>"
  by (simp add: analyzeDependencies_def mixedImports_def exec_loop.simps regex_eval
       deleteCoreDependencies_def implicitDependencies_def set_delete_def)

lemma mixed_extracted:
  "extractedPaths mixedImports = Some [Some ''./a/b'', Some ''lodash/debounce'']"
  by (simp add: extractedPaths_def mixedImports_def exec_loop.simps regex_eval)

lemma core_analyze:
  "analyzeDependencies coreImports =
     Some \<lparr>AnalysisResult.dependencies = [], localImports = []\<rparr>"
  by (simp add: analyzeDependencies_def coreImports_def exec_loop.simps regex_eval
       deleteCoreDependencies_def implicitDependencies_def set_delete_def)

lemma core_extracted:
  "extractedPaths coreImports = Some [Some ''react'', Some ''fs'']"
  by (simp add: extractedPaths_def coreImports_def exec_loop.simps regex_eval)

subsection \<open>Claims about the analyzer\<close>

text \<open>
  C3 (as amended). \<open>analyzeDependencies\<close> returns for every input text: neither loop runs
  forever and nothing is raised. For a text with no import-like token, and with neither
  of the markers \<open>motion.\<close> and \<open>AnimatePresence\<close>, it returns two empty sequences.
\<close>

theorem analyze_total_and_empty:
  "(\<exists>res. analyzeDependencies code = Some res) \<and>
   (\<not> importLikeTokens code \<and> \<not> js_includes code ''motion.'' \<and>
    \<not> js_includes code ''AnimatePresence'' \<longrightarrow>
      analyzeDependencies code =
        Some \<lparr>AnalysisResult.dependencies = [], localImports = []\<rparr>)"
  using analyze_total[of code] analyze_no_tokens[of code]
  by (auto simp: deleteCoreDependencies_def implicitDependencies_def set_delete_def)

theorem analyze_total_and_empty_witness:
  "\<not> importLikeTokens ''const x = 1;'' \<and> \<not> js_includes ''const x = 1;'' ''motion.'' \<and>
   \<not> js_includes ''const x = 1;'' ''AnimatePresence'' \<and>
   analyzeDependencies ''const x = 1;'' =
     Some \<lparr>AnalysisResult.dependencies = [], localImports = []\<rparr>"
  using analyze_total_and_empty[of "''const x = 1;''"]
  by (simp add: importLikeTokens_def)

text \<open>
  C3 as stated fails: a text with no import-like token that holds the marker
  \<open>AnimatePresence\<close> yields the package \<open>framer-motion\<close>.
\<close>

theorem analyze_implicit_counterexample:
  "\<not> importLikeTokens ''<AnimatePresence />'' \<and>
   analyzeDependencies ''<AnimatePresence />'' =
     Some \<lparr>AnalysisResult.dependencies = [''framer-motion''], localImports = []\<rparr>"
  by (simp add: importLikeTokens_def analyze_no_tokens deleteCoreDependencies_def
      implicitDependencies_def set_delete_def set_add_def)

text \<open>
  C4. An external path (not empty, not local) is normalised by \<open>cleanPackageName\<close> to its
  package root before \<open>processPath\<close> inserts it: the first two segments of a path that
  begins with \<open>@\<close>, the first segment of any other. An empty path and an \<open>undefined\<close> one
  are dropped without an error. So \<open>externalPackages\<close> holds the roots of the extracted
  external paths and the implicit package, less the denylist.
\<close>

theorem external_paths_normalized:
  "(path \<noteq> [] \<and> \<not> isLocal path \<longrightarrow>
      cleanPackageName path = Some (packageRoot path) \<and>
      processPath path st =
        st\<lparr>AnalysisResult.dependencies :=
             set_add (packageRoot path) (AnalysisResult.dependencies st)\<rparr>) \<and>
   cleanPackageName [] = None \<and> processPath [] st = st \<and> processMatch None st = st \<and>
   (analyzeDependencies code = Some res \<and> extractedPaths code = Some caps \<longrightarrow>
      set (AnalysisResult.dependencies res) =
        ({packageRoot p | p. Some p \<in> set caps \<and> p \<noteq> [] \<and> \<not> isLocal p}
           \<union> implicitPackages code) - denylist)"
proof -
  have a: "path \<noteq> [] \<and> \<not> isLocal path \<longrightarrow>
      cleanPackageName path = Some (packageRoot path) \<and>
      processPath path st =
        st\<lparr>AnalysisResult.dependencies :=
             set_add (packageRoot path) (AnalysisResult.dependencies st)\<rparr>"
    using cleanPackageName_external[of path]
    by (auto simp: processPath_def isLocal_def)
  have b: "cleanPackageName [] = None \<and> processPath [] st = st \<and> processMatch None st = st"
    by (simp add: cleanPackageName_def processPath_def processMatch_def)
  from a b analyze_sets(2)[of code res caps] show ?thesis by blast
qed

theorem external_paths_normalized_witness:
  "cleanPackageName ''@scope/pkg/deep'' = Some ''@scope/pkg'' \<and>
   packageRoot ''lodash/debounce'' = ''lodash'' \<and>
   analyzeDependencies mixedImports =
     Some \<lparr>AnalysisResult.dependencies = [''lodash''], localImports = [''./a/b'']\<rparr> \<and>
   set [''lodash''] =
     ({packageRoot p | p. Some p \<in> set [Some ''./a/b'', Some ''lodash/debounce''] \<and>
          p \<noteq> [] \<and> \<not> isLocal p}
       \<union> implicitPackages mixedImports) - denylist"
proof -
  let ?res = "\<lparr>AnalysisResult.dependencies = [''lodash''], localImports = [''./a/b'']\<rparr>"
  let ?caps = "[Some ''./a/b'', Some ''lodash/debounce'']"
  note t = external_paths_normalized[of "''@scope/pkg/deep''" ?res mixedImports ?res ?caps]
  have p: "''@scope/pkg/deep'' \<noteq> [] \<and> \<not> isLocal ''@scope/pkg/deep''"
    by (simp add: isLocal_def startsWith_def)
  have r: "packageRoot ''@scope/pkg/deep'' = ''@scope/pkg''"
          "packageRoot ''lodash/debounce'' = ''lodash''"
    by (simp_all add: packageRoot_def startsWith_def numeral_2_eq_2)
  from t p have 1: "cleanPackageName ''@scope/pkg/deep'' = Some (packageRoot ''@scope/pkg/deep'')"
    by blast
  from t mixed_analyze mixed_extracted have 2: "set (AnalysisResult.dependencies ?res) =
     ({packageRoot p | p. Some p \<in> set ?caps \<and> p \<noteq> [] \<and> \<not> isLocal p}
       \<union> implicitPackages mixedImports) - denylist"
    by blast
  from 1 2 r mixed_analyze show ?thesis by simp
qed

text \<open>
  C5. The two sequences \<open>analyzeDependencies\<close> returns are disjoint: every extracted path
  that begins with \<open>.\<close> or \<open>/\<close> is in \<open>localImports\<close> as it was extracted and is not in
  \<open>externalPackages\<close>; \<open>localImports\<close> holds nothing else, and no entry of
  \<open>externalPackages\<close> begins with \<open>.\<close> or \<open>/\<close>.
\<close>

theorem analyze_disjoint:
  assumes "analyzeDependencies code = Some res" "extractedPaths code = Some caps"
  shows "set (AnalysisResult.dependencies res) \<inter> set (AnalysisResult.localImports res) = {} \<and>
         (\<forall>p. Some p \<in> set caps \<and> isLocal p \<longrightarrow>
              p \<in> set (AnalysisResult.localImports res) \<and>
              p \<notin> set (AnalysisResult.dependencies res)) \<and>
         (\<forall>l \<in> set (AnalysisResult.localImports res). isLocal l \<and> Some l \<in> set caps) \<and>
         (\<forall>d \<in> set (AnalysisResult.dependencies res). \<not> isLocal d)"
proof -
  note s = analyze_sets[OF assms]
  have d: "\<forall>d \<in> set (AnalysisResult.dependencies res). \<not> isLocal d"
    unfolding s using cleanPackageName_external(3) implicit_not_local by auto
  have l: "\<forall>l \<in> set (AnalysisResult.localImports res). isLocal l \<and> Some l \<in> set caps"
    unfolding s by auto
  have m: "\<forall>p. Some p \<in> set caps \<and> isLocal p \<longrightarrow> p \<in> set (AnalysisResult.localImports res)"
    unfolding s using isLocal_nonempty by auto
  from d l m show ?thesis by blast
qed

theorem analyze_disjoint_witness:
  "analyzeDependencies mixedImports =
     Some \<lparr>AnalysisResult.dependencies = [''lodash''], localImports = [''./a/b'']\<rparr> \<and>
   extractedPaths mixedImports = Some [Some ''./a/b'', Some ''lodash/debounce''] \<and>
   set [''lodash''] \<inter> set [''./a/b''] = {} \<and>
   isLocal ''./a/b'' \<and> ''./a/b'' \<in> set [''./a/b''] \<and> ''./a/b'' \<notin> set [''lodash'']"
  using analyze_disjoint[OF mixed_analyze mixed_extracted] mixed_analyze mixed_extracted
  by (simp add: isLocal_def startsWith_def)

text \<open>
  C8. Whatever the text imports, \<open>externalPackages\<close> holds none of \<open>react\<close>,
  \<open>react-dom\<close>, \<open>fs\<close> and \<open>path\<close>.
\<close>

theorem analyze_never_core:
  assumes "analyzeDependencies code = Some res"
  shows "''react'' \<notin> set (AnalysisResult.dependencies res) \<and>
         ''react-dom'' \<notin> set (AnalysisResult.dependencies res) \<and>
         ''fs'' \<notin> set (AnalysisResult.dependencies res) \<and>
         ''path'' \<notin> set (AnalysisResult.dependencies res)"
proof -
  from analyze_fold[of code] assms obtain st where
    "res = deleteCoreDependencies (implicitDependencies code st)" by auto
  then show ?thesis
    by (simp add: deleteCoreDependencies_def set_delete_def)
qed

theorem analyze_never_core_witness:
  "analyzeDependencies coreImports =
     Some \<lparr>AnalysisResult.dependencies = [], localImports = []\<rparr> \<and>
   extractedPaths coreImports = Some [Some ''react'', Some ''fs''] \<and>
   ''react'' \<notin> set (AnalysisResult.dependencies
       \<lparr>AnalysisResult.dependencies = [], localImports = []\<rparr>)"
  using analyze_never_core[OF core_analyze] core_analyze core_extracted
  by simp

section \<open>Properties of the generator\<close>

lemma componentName_eq:
  "componentName s =
     (if filter ascii_alnum s = [] then ''Component'' else filter ascii_alnum s)"
  by (simp add: componentName_def replace_all_Chr_filter not_alnum_def Let_def)

lemma js_includes_char: "js_includes s [c] \<longleftrightarrow> c \<in> set s"
  by (induction s) auto

lemma ghostFile_plain:
  assumes "CHR ''.'' \<notin> set (lastPart (cleanPath p))"
  shows "ghostFile ft p =
     (cleanPath p @ componentExtension ft,
      Text (dummyContent (cleanPath p) (componentName (lastPart (cleanPath p)))))"
  using assms
  by (simp add: ghostFile_def Let_def js_includes_char componentExtension_def isTS_def)

lemma ghostFile_dotted_path:
  assumes "CHR ''.'' \<in> set (lastPart (cleanPath p))"
  shows "fst (ghostFile ft p) = cleanPath p"
  using assms by (simp add: ghostFile_def Let_def js_includes_char)

lemma recognized_iff:
  assumes "CHR ''.'' \<in> set s"
  shows "regex_test styleRegex s \<or> regex_test imageRegex s \<or> regex_test jsonRegex s \<longleftrightarrow>
         extension s \<in> set recognizedExtensions"
proof -
  have e: "\<And>e. e \<in> set recognizedExtensions \<Longrightarrow> (suffix (CHR ''.'' # e) s \<longleftrightarrow> extension s = e)"
    using assms by (subst extension_suffix) (auto simp: recognizedExtensions_def)
  show ?thesis
    unfolding styleRegex_def imageRegex_def jsonRegex_def regex_test_extension
    using e by (auto simp: recognizedExtensions_def)
qed

lemma ghostFile_unrecognized:
  assumes "CHR ''.'' \<in> set (lastPart (cleanPath p))"
    and "extension (lastPart (cleanPath p)) \<notin> set recognizedExtensions"
  shows "ghostFile ft p =
     (cleanPath p, Text (dummyContent (cleanPath p) (componentName (lastPart (cleanPath p)))))"
proof -
  from recognized_iff[OF assms(1)] assms(2) have
    "\<not> regex_test styleRegex (lastPart (cleanPath p))"
    "\<not> regex_test imageRegex (lastPart (cleanPath p))"
    "\<not> regex_test jsonRegex (lastPart (cleanPath p))"
    by blast+
  with assms(1) show ?thesis
    by (simp add: ghostFile_def Let_def js_includes_char)
qed

lemma ghostFile_cleanPath_cong:
  "cleanPath q = cleanPath p \<Longrightarrow> ghostFile ft q = ghostFile ft p"
  by (simp add: ghostFile_def)

lemma ghostStep_apply:
  "ghostStep ft z p k =
     (if k = ''src/'' @ fst (ghostFile ft p) then Some (snd (ghostFile ft p)) else z k)"
  by (simp add: ghostStep_def src_file_def zip_file_def)

lemma ghost_fold_untouched:
  assumes "\<forall>q \<in> set ps. ''src/'' @ fst (ghostFile ft q) \<noteq> k"
  shows "foldl (ghostStep ft) z ps k = z k"
  using assms
proof (induction ps rule: rev_induct)
  case Nil
  show ?case by simp
next
  case (snoc q qs)
  then have "foldl (ghostStep ft) z qs k = z k" "''src/'' @ fst (ghostFile ft q) \<noteq> k"
    by auto
  then show ?case
    unfolding foldl_append foldl_Cons foldl_Nil
    by (subst ghostStep_apply) auto
qed

lemma ghost_fold_other:
  "\<not> prefix ''src/'' k \<Longrightarrow> foldl (ghostStep ft) z ps k = z k"
  by (rule ghost_fold_untouched) auto

lemma ghost_fold_value:
  assumes "''src/'' @ fst (ghostFile ft p) = k"
    and "\<forall>q \<in> set post. ''src/'' @ fst (ghostFile ft q) = k \<longrightarrow>
           snd (ghostFile ft q) = snd (ghostFile ft p)"
  shows "foldl (ghostStep ft) z (pre @ p # post) k = Some (snd (ghostFile ft p))"
  using assms(2)
proof (induction post rule: rev_induct)
  case Nil
  have "foldl (ghostStep ft) z (pre @ [p]) k = Some (snd (ghostFile ft p))"
    unfolding foldl_append foldl_Cons foldl_Nil
    using assms(1) by (subst ghostStep_apply) auto
  then show ?case by simp
next
  case (snoc q qs)
  then have ih: "foldl (ghostStep ft) z (pre @ p # qs) k = Some (snd (ghostFile ft p))"
    by simp
  have "foldl (ghostStep ft) z ((pre @ p # qs) @ [q]) k = Some (snd (ghostFile ft p))"
    unfolding foldl_append[of _ _ "pre @ p # qs"] foldl_Cons foldl_Nil
    using ih snoc.prems by (subst ghostStep_apply) auto
  then show ?case by simp
qed

lemma tree_ghost:
  assumes "k \<noteq> ''src/index.css''"
  shows "generateProjectZip cfg ft k =
           ghostFiles cfg ft (sourceFiles cfg ft (configFiles ft
             (zip_file ''package.json'' (JsonText (packageJson cfg ft)) Map.empty))) k"
  using assms by (simp add: generateProjectZip_def Let_def src_file_def zip_file_def)

lemma root_lookup:
  assumes "\<not> prefix ''src/'' k"
  shows "generateProjectZip cfg ft k =
           sourceFiles cfg ft (configFiles ft
             (zip_file ''package.json'' (JsonText (packageJson cfg ft)) Map.empty)) k"
proof -
  from assms have "k \<noteq> ''src/index.css''" by auto
  from tree_ghost[OF this] ghost_fold_other[OF assms] show ?thesis
    by (simp add: ghostFiles_def)
qed

lemma tsconfig_lookup:
  "generateProjectZip cfg ft ''tsconfig.json'' =
     (if ft = TS \<or> ft = TSX then Some (JsonText tsConfig) else None)"
  "generateProjectZip cfg ft ''tsconfig.node.json'' =
     (if ft = TS \<or> ft = TSX then Some (JsonText tsConfigNode) else None)"
  "generateProjectZip cfg ft ''package.json'' = Some (JsonText (packageJson cfg ft))"
  by (simp_all add: root_lookup sourceFiles_def configFiles_def src_file_def zip_file_def
        Let_def isTS_def ext_def jsxExt_def appFileName_def)

lemma component_not_css: "''src/'' @ cp @ componentExtension ft \<noteq> ''src/index.css''"
proof
  assume "''src/'' @ cp @ componentExtension ft = ''src/index.css''"
  then have "last (''src/'' @ cp @ componentExtension ft) = last ''src/index.css''" by simp
  then show False by (simp add: componentExtension_def split: if_splits)
qed

lemma plain_import_tree:
  assumes "localImports cfg = pre @ p # post"
    and "CHR ''.'' \<notin> set (lastPart (cleanPath p))"
    and "\<forall>q \<in> set post. cleanPath q \<noteq> cleanPath p @ componentExtension ft"
  shows "generateProjectZip cfg ft (''src/'' @ cleanPath p @ componentExtension ft) =
           Some (Text (dummyContent (cleanPath p) (componentName (lastPart (cleanPath p)))))"
proof -
  let ?k = "''src/'' @ cleanPath p @ componentExtension ft"
  note gp = ghostFile_plain[OF assms(2), of ft]
  have key: "''src/'' @ fst (ghostFile ft p) = ?k" by (simp add: gp)
  have others: "\<forall>q \<in> set post.
                  ''src/'' @ fst (ghostFile ft q) = ?k \<longrightarrow>
                  snd (ghostFile ft q) = snd (ghostFile ft p)"
  proof (intro ballI impI)
    fix q assume q: "q \<in> set post" and k: "''src/'' @ fst (ghostFile ft q) = ?k"
    show "snd (ghostFile ft q) = snd (ghostFile ft p)"
    proof (cases "CHR ''.'' \<in> set (lastPart (cleanPath q))")
      case True
      from ghostFile_dotted_path[OF True, of ft] k
      have "cleanPath q = cleanPath p @ componentExtension ft" by simp
      with assms(3) q show ?thesis by blast
    next
      case False
      from ghostFile_plain[OF False, of ft] k have "cleanPath q = cleanPath p" by simp
      from ghostFile_cleanPath_cong[OF this, of ft] show ?thesis by simp
    qed
  qed
  from ghost_fold_value[OF key others, of _ pre] tree_ghost[OF component_not_css] gp
  show ?thesis by (simp add: ghostFiles_def assms(1))
qed

lemma dotted_import_tree:
  assumes "CHR ''.'' \<in> set (lastPart (cleanPath p))"
    and "extension (lastPart (cleanPath p)) \<notin> set recognizedExtensions"
    and "localImports cfg = pre @ p # post"
    and "\<forall>q \<in> set post. CHR ''.'' \<notin> set (lastPart (cleanPath q)) \<longrightarrow>
           cleanPath q @ componentExtension ft \<noteq> cleanPath p"
  shows "generateProjectZip cfg ft (''src/'' @ cleanPath p) =
           Some (Text (dummyContent (cleanPath p) (componentName (lastPart (cleanPath p)))))"
proof -
  let ?k = "''src/'' @ cleanPath p"
  note gp = ghostFile_unrecognized[OF assms(1,2), of ft]
  have key: "''src/'' @ fst (ghostFile ft p) = ?k" by (simp add: gp)
  have others: "\<forall>q \<in> set post.
                  ''src/'' @ fst (ghostFile ft q) = ?k \<longrightarrow>
                  snd (ghostFile ft q) = snd (ghostFile ft p)"
  proof (intro ballI impI)
    fix q assume q: "q \<in> set post" and k: "''src/'' @ fst (ghostFile ft q) = ?k"
    show "snd (ghostFile ft q) = snd (ghostFile ft p)"
    proof (cases "CHR ''.'' \<in> set (lastPart (cleanPath q))")
      case True
      from ghostFile_dotted_path[OF True, of ft] k have "cleanPath q = cleanPath p" by simp
      from ghostFile_cleanPath_cong[OF this, of ft] show ?thesis by simp
    next
      case False
      from ghostFile_plain[OF False, of ft] k
      have "cleanPath q @ componentExtension ft = cleanPath p" by simp
      with assms(4) q False show ?thesis by blast
    qed
  qed
  have "cleanPath p \<noteq> ''index.css''"
  proof
    assume "cleanPath p = ''index.css''"
    with assms(2) show False
      by (simp add: lastPart_def extension_def recognizedExtensions_def)
  qed
  then have "?k \<noteq> ''src/index.css''" by simp
  from ghost_fold_value[OF key others, of _ pre] tree_ghost[OF this] gp
  show ?thesis by (simp add: ghostFiles_def assms(3))
qed

lemma dummyContent_exports:
  "\<exists>pre. dummyContent cp n =
     pre @ ''export default '' @ n @ '';\<newline>export const '' @ n @ ''Named = '' @ n @ '';\<newline>''"
  unfolding dummyContent_def
  by (rule exI[where x = "concat [''\<newline>'', ''import React from 'react';\<newline>'',
     ''// Ghost Component generated to prevent build errors\<newline>'',
     ''// Missing file: '', cp, ''\<newline>'', ''const '', n, '' = (props: any) => (\<newline>'',
     ''  <div className=\"p-4 border border-dashed border-amber-300 bg-amber-50 rounded text-center\">\<newline>'',
     ''    <p className=\"text-amber-600 font-mono text-xs\">Missing Component: '',
     cp, ''</p>\<newline>'', ''  </div>\<newline>'', '');\<newline>'']"]) simp






lemma json_keys_string_object: "json_keys (string_object ps) = map fst ps"
  by (induction ps) (auto simp: string_object_def)

lemma devDependencies_members:
  "''typescript'' \<in> set (json_keys (string_object (devDependencies ft))) \<longleftrightarrow>
     ft = TS \<or> ft = TSX"
  "''@types/node'' \<in> set (json_keys (string_object (devDependencies ft))) \<longleftrightarrow>
     ft = TS \<or> ft = TSX"
  "''@types/react'' \<in> set (json_keys (string_object (devDependencies ft)))"
  "''@types/react-dom'' \<in> set (json_keys (string_object (devDependencies ft)))"
  by (cases ft; simp add: json_keys_string_object devDependencies_def isTS_def)+



lemmas path_eval = cleanPath_def strip_leading_def lastPart_def extension_def
  recognizedExtensions_def componentExtension_def

lemma sample_ghosts:
  "ghostFile TSX ''./components/Button'' =
     (''components/Button.tsx'', Text (dummyContent ''components/Button'' ''Button''))"
  "ghostFile TSX ''./Comp.jsx'' = (''Comp.jsx'', Text (dummyContent ''Comp.jsx'' ''Compjsx''))"
  "fst (ghostFile TSX ''./styles/site.css'') = ''styles/site.css''"
proof -
  have a: "CHR ''.'' \<notin> set (lastPart (cleanPath ''./components/Button''))"
    by (simp add: path_eval)
  from ghostFile_plain[OF a, of TSX] show
    "ghostFile TSX ''./components/Button'' =
     (''components/Button.tsx'', Text (dummyContent ''components/Button'' ''Button''))"
    by (simp add: path_eval componentName_eq ascii_alnum_def)
  have b: "CHR ''.'' \<in> set (lastPart (cleanPath ''./Comp.jsx''))"
          "extension (lastPart (cleanPath ''./Comp.jsx'')) \<notin> set recognizedExtensions"
    by (simp_all add: path_eval)
  from ghostFile_unrecognized[OF b, of TSX] show
    "ghostFile TSX ''./Comp.jsx'' = (''Comp.jsx'', Text (dummyContent ''Comp.jsx'' ''Compjsx''))"
    by (simp add: path_eval componentName_eq ascii_alnum_def)
  have c: "CHR ''.'' \<in> set (lastPart (cleanPath ''./styles/site.css''))"
    by (simp add: path_eval)
  from ghostFile_dotted_path[OF c, of TSX] show
    "fst (ghostFile TSX ''./styles/site.css'') = ''styles/site.css''"
    by (simp add: path_eval)
qed

lemma colliding_ghosts:
  "ghostFile TSX ''./Foo'' = (''Foo.tsx'', Text (dummyContent ''Foo'' ''Foo''))"
  "ghostFile TSX ''./Foo.tsx'' = (''Foo.tsx'', Text (dummyContent ''Foo.tsx'' ''Footsx''))"
proof -
  have a: "CHR ''.'' \<notin> set (lastPart (cleanPath ''./Foo''))"
    by (simp add: path_eval)
  from ghostFile_plain[OF a, of TSX] show
    "ghostFile TSX ''./Foo'' = (''Foo.tsx'', Text (dummyContent ''Foo'' ''Foo''))"
    by (simp add: path_eval componentName_eq ascii_alnum_def)
  have b: "CHR ''.'' \<in> set (lastPart (cleanPath ''./Foo.tsx''))"
          "extension (lastPart (cleanPath ''./Foo.tsx'')) \<notin> set recognizedExtensions"
    by (simp_all add: path_eval)
  from ghostFile_unrecognized[OF b, of TSX] show
    "ghostFile TSX ''./Foo.tsx'' = (''Foo.tsx'', Text (dummyContent ''Foo.tsx'' ''Footsx''))"
    by (simp add: path_eval componentName_eq ascii_alnum_def)
qed

text \<open>
  The enumeration order at work: the dependency \<open>7\<close>, an array index, comes before
  the keys of the object literal, the dependency \<open>lodash\<close> after them.
\<close>

lemma nested_dependencies_order:
  "map fst (mergedDependencies nestedConfig) =
     ''7'' # map fst baseDependencies @ [''lodash'']"
  by (simp add: mergedDependencies_def nestedConfig_def property_order_def array_index_def
        js_digit_def decimal_value_def startsWith_def addDependency_def truthy_property_def
        baseDependencies_def object_prototype_keys_def)

subsection \<open>Claims about the generator\<close>




text \<open>
  C2 (as amended). The manifest's dev-dependencies hold the type checker \<open>typescript\<close>
  and the type declarations \<open>@types/node\<close>, and the tree holds \<open>tsconfig.json\<close> and
  \<open>tsconfig.node.json\<close>, if and only if the variant is TS or TSX. The type declarations
  \<open>@types/react\<close> and \<open>@types/react-dom\<close> are dev-dependencies for every variant.
\<close>

theorem typed_variant_files:
  "generateProjectZip cfg ft ''package.json'' = Some (JsonText (packageJson cfg ft)) \<and>
   json_field (packageJson cfg ft) ''devDependencies'' = Some (string_object (devDependencies ft)) \<and>
   (''typescript'' \<in> set (json_keys (string_object (devDependencies ft))) \<longleftrightarrow>
      ft = TS \<or> ft = TSX) \<and>
   (''@types/node'' \<in> set (json_keys (string_object (devDependencies ft))) \<longleftrightarrow>
      ft = TS \<or> ft = TSX) \<and>
   ''@types/react'' \<in> set (json_keys (string_object (devDependencies ft))) \<and>
   ''@types/react-dom'' \<in> set (json_keys (string_object (devDependencies ft))) \<and>
   (generateProjectZip cfg ft ''tsconfig.json'' \<noteq> None \<longleftrightarrow> ft = TS \<or> ft = TSX) \<and>
   (generateProjectZip cfg ft ''tsconfig.node.json'' \<noteq> None \<longleftrightarrow> ft = TS \<or> ft = TSX)"
proof -
  have "json_field (packageJson cfg ft) ''devDependencies'' =
          Some (string_object (devDependencies ft))"
    by (simp add: packageJson_def)
  then show ?thesis
    by (simp add: devDependencies_members tsconfig_lookup)
qed

theorem typed_variant_files_witness:
  "''typescript'' \<in> set (json_keys (string_object (devDependencies TSX))) \<and>
   ''typescript'' \<notin> set (json_keys (string_object (devDependencies JSX))) \<and>
   generateProjectZip sampleConfig TSX ''tsconfig.json'' \<noteq> None \<and>
   generateProjectZip sampleConfig TSX ''tsconfig.node.json'' \<noteq> None \<and>
   generateProjectZip sampleConfig JSX ''tsconfig.json'' = None \<and>
   generateProjectZip sampleConfig JSX ''tsconfig.node.json'' = None"
  using typed_variant_files[of sampleConfig TSX] typed_variant_files[of sampleConfig JSX]
  by simp

text \<open>
  C2 as stated fails: for the variant JSX the dev-dependencies of the generated manifest
  hold the type-declaration packages \<open>@types/react\<close> and \<open>@types/react-dom\<close>.
\<close>

theorem jsx_type_declarations_counterexample:
  "generateProjectZip sampleConfig JSX ''package.json'' =
     Some (JsonText (packageJson sampleConfig JSX)) \<and>
   json_field (packageJson sampleConfig JSX) ''devDependencies'' =
     Some (string_object (devDependencies JSX)) \<and>
   ''@types/react'' \<in> set (json_keys (string_object (devDependencies JSX))) \<and>
   ''@types/react-dom'' \<in> set (json_keys (string_object (devDependencies JSX)))"
  by (simp add: tsconfig_lookup(3) packageJson_def devDependencies_members)

text \<open>
  C6 (as amended). For an entry of \<open>localImports\<close> whose final path segment holds no
  \<open>.\<close>, and provided that no later entry of \<open>localImports\<close> has as its cleaned path
  that of the entry with the variant extension appended, the tree holds under \<open>src\<close>, at the
  cleaned path with \<open>.tsx\<close> (TS, TSX) or \<open>.jsx\<close> appended, the placeholder component of
  the entry. Its identifier is the ASCII letters and digits of the final segment
  (\<open>Component\<close> when there are none); the file ends with the default export of the
  identifier and the export of the identifier followed by \<open>Named\<close>.
\<close>

theorem plain_import_component:
  assumes "localImports cfg = pre @ p # post"
    and "CHR ''.'' \<notin> set (lastPart (cleanPath p))"
    and "\<forall>q \<in> set post. cleanPath q \<noteq> cleanPath p @ componentExtension ft"
  shows "generateProjectZip cfg ft (''src/'' @ cleanPath p @ componentExtension ft) =
           Some (Text (dummyContent (cleanPath p) (componentName (lastPart (cleanPath p))))) \<and>
         componentName (lastPart (cleanPath p)) =
           (if filter ascii_alnum (lastPart (cleanPath p)) = [] then ''Component''
            else filter ascii_alnum (lastPart (cleanPath p))) \<and>
         (\<exists>pre. dummyContent (cleanPath p) (componentName (lastPart (cleanPath p))) =
            pre @ ''export default '' @ componentName (lastPart (cleanPath p)) @
              '';\<newline>export const '' @ componentName (lastPart (cleanPath p)) @
              ''Named = '' @ componentName (lastPart (cleanPath p)) @ '';\<newline>'')"
  using plain_import_tree[OF assms] componentName_eq dummyContent_exports
  by blast

theorem plain_import_component_witness:
  "localImports sampleConfig =
     [] @ ''./components/Button'' # [''./Comp.jsx'', ''./styles/site.css''] \<and>
   CHR ''.'' \<notin> set (lastPart (cleanPath ''./components/Button'')) \<and>
   generateProjectZip sampleConfig TSX ''src/components/Button.tsx'' =
     Some (Text (dummyContent ''components/Button'' ''Button''))"
proof -
  have a: "localImports sampleConfig =
     [] @ ''./components/Button'' # [''./Comp.jsx'', ''./styles/site.css'']"
    by (simp add: sampleConfig_def)
  have b: "CHR ''.'' \<notin> set (lastPart (cleanPath ''./components/Button''))"
    by (simp add: path_eval)
  have c: "\<forall>q \<in> set [''./Comp.jsx'', ''./styles/site.css''].
             cleanPath q \<noteq> cleanPath ''./components/Button'' @ componentExtension TSX"
    by (simp add: path_eval)
  from plain_import_component[OF a b c] a b show ?thesis
    by (simp add: path_eval componentName_eq ascii_alnum_def)
qed

text \<open>
  C6 as stated fails: with \<open>localImports = ["./Foo", "./Foo.tsx"]\<close> and the variant
  TSX, the file \<open>src/Foo.tsx\<close> of the tree is the ghost of the second entry, whose
  identifier is \<open>Footsx\<close>, not the placeholder of \<open>./Foo\<close>.
\<close>

theorem plain_import_overwritten_counterexample:
  "localImports collidingConfig = [''./Foo'', ''./Foo.tsx''] \<and>
   CHR ''.'' \<notin> set (lastPart (cleanPath ''./Foo'')) \<and>
   cleanPath ''./Foo'' @ componentExtension TSX = ''Foo.tsx'' \<and>
   componentName (lastPart (cleanPath ''./Foo'')) = ''Foo'' \<and>
   generateProjectZip collidingConfig TSX ''src/Foo.tsx'' =
     Some (Text (dummyContent ''Foo.tsx'' ''Footsx'')) \<and>
   generateProjectZip collidingConfig TSX ''src/Foo.tsx'' \<noteq>
     Some (Text (dummyContent ''Foo'' ''Foo''))"
proof -
  have t: "generateProjectZip collidingConfig TSX ''src/Foo.tsx'' =
     Some (Text (dummyContent ''Foo.tsx'' ''Footsx''))"
    by (subst tree_ghost, simp)
       (simp add: ghostFiles_def collidingConfig_def ghostStep_apply colliding_ghosts)
  have d: "dummyContent ''Foo.tsx'' ''Footsx'' \<noteq> dummyContent ''Foo'' ''Foo''"
    by (simp add: dummyContent_def)
  from t d show ?thesis
    by (simp add: collidingConfig_def path_eval componentName_eq ascii_alnum_def)
qed

text \<open>
  C7. Two inputs that agree on \<open>fileContent\<close>, \<open>projectName\<close>, \<open>dependencies\<close>,
  \<open>localImports\<close> and the variant yield trees with the same set of paths and the same
  content at every path.
\<close>

theorem generate_deterministic:
  assumes "fileContent c1 = fileContent c2" "projectName c1 = projectName c2"
    and "dependencies c1 = dependencies c2" "localImports c1 = localImports c2"
  shows "dom (generateProjectZip c1 ft) = dom (generateProjectZip c2 ft) \<and>
         (\<forall>path. generateProjectZip c1 ft path = generateProjectZip c2 ft path)"
proof -
  have "generateProjectZip c1 ft = generateProjectZip c2 ft"
    using assms
    by (simp add: generateProjectZip_def packageJson_def packageName_def
          mergedDependencies_def sourceFiles_def ghostFiles_def)
  then show ?thesis by simp
qed

theorem generate_deterministic_witness:
  "fileContent sampleConfig = fileContent (sampleConfig\<lparr>fileName := ''Other.jsx''\<rparr>) \<and>
   dom (generateProjectZip sampleConfig TSX) =
     dom (generateProjectZip (sampleConfig\<lparr>fileName := ''Other.jsx''\<rparr>) TSX) \<and>
   generateProjectZip sampleConfig TSX ''src/App.tsx'' =
     generateProjectZip (sampleConfig\<lparr>fileName := ''Other.jsx''\<rparr>) TSX ''src/App.tsx''"
  using generate_deterministic[of sampleConfig "sampleConfig\<lparr>fileName := ''Other.jsx''\<rparr>" TSX]
  by simp

text \<open>
  C9 (as amended). For an entry of \<open>localImports\<close> whose final path segment holds a \<open>.\<close>
  and whose extension is none of the stylesheet, image and json extensions, and provided
  that no later entry of \<open>localImports\<close> without extension resolves to the same path (its
  cleaned path with the variant extension appended), the tree holds under \<open>src\<close>, at the
  cleaned path as it is with no variant extension appended, the ghost component of the
  entry. Its identifier is the ASCII letters and digits of the whole final segment, those
  of the extension included (\<open>Component\<close> when there are none); the file ends with the
  default export of the identifier and the export of the identifier followed by \<open>Named\<close>.
\<close>

theorem unrecognized_extension_component:
  assumes "localImports cfg = pre @ p # post"
    and "CHR ''.'' \<in> set (lastPart (cleanPath p))"
    and "extension (lastPart (cleanPath p)) \<notin> set recognizedExtensions"
    and "\<forall>q \<in> set post. CHR ''.'' \<notin> set (lastPart (cleanPath q)) \<longrightarrow>
           cleanPath q @ componentExtension ft \<noteq> cleanPath p"
  shows "generateProjectZip cfg ft (''src/'' @ cleanPath p) =
           Some (Text (dummyContent (cleanPath p) (componentName (lastPart (cleanPath p))))) \<and>
         ghostFile ft p =
           (cleanPath p,
            Text (dummyContent (cleanPath p) (componentName (lastPart (cleanPath p))))) \<and>
         componentName (lastPart (cleanPath p)) =
           (if filter ascii_alnum (lastPart (cleanPath p)) = [] then ''Component''
            else filter ascii_alnum (lastPart (cleanPath p))) \<and>
         suffix (filter ascii_alnum (extension (lastPart (cleanPath p))))
                (filter ascii_alnum (lastPart (cleanPath p))) \<and>
         (\<exists>pre. dummyContent (cleanPath p) (componentName (lastPart (cleanPath p))) =
            pre @ ''export default '' @ componentName (lastPart (cleanPath p)) @
              '';\<newline>export const '' @ componentName (lastPart (cleanPath p)) @
              ''Named = '' @ componentName (lastPart (cleanPath p)) @ '';\<newline>'')"
  using dotted_import_tree[OF assms(2,3,1,4)] ghostFile_unrecognized[OF assms(2,3), of ft]
    componentName_eq filter_suffix[OF extension_is_suffix] dummyContent_exports
  by blast

theorem unrecognized_extension_component_witness:
  "localImports nestedConfig =
     [] @ ''./widgets/Comp.jsx'' # [''./widgets/Comp'', ''./widgets/theme.css''] \<and>
   lastPart (cleanPath ''./widgets/Comp.jsx'') = ''Comp.jsx'' \<and>
   extension ''Comp.jsx'' = ''jsx'' \<and> ''jsx'' \<notin> set recognizedExtensions \<and>
   componentName ''Comp.jsx'' = ''Compjsx'' \<and>
   ghostFile TSX ''./widgets/Comp.jsx'' =
     (''widgets/Comp.jsx'', Text (dummyContent ''widgets/Comp.jsx'' ''Compjsx'')) \<and>
   generateProjectZip nestedConfig TSX ''src/widgets/Comp.jsx'' =
     Some (Text (dummyContent ''widgets/Comp.jsx'' ''Compjsx''))"
proof -
  have a: "localImports nestedConfig =
     [] @ ''./widgets/Comp.jsx'' # [''./widgets/Comp'', ''./widgets/theme.css'']"
    by (simp add: nestedConfig_def)
  have b: "CHR ''.'' \<in> set (lastPart (cleanPath ''./widgets/Comp.jsx''))"
          "extension (lastPart (cleanPath ''./widgets/Comp.jsx'')) \<notin> set recognizedExtensions"
    by (simp_all add: path_eval)
  have c: "\<forall>q \<in> set [''./widgets/Comp'', ''./widgets/theme.css''].
             CHR ''.'' \<notin> set (lastPart (cleanPath q)) \<longrightarrow>
             cleanPath q @ componentExtension TSX \<noteq> cleanPath ''./widgets/Comp.jsx''"
    by (simp add: path_eval)
  have e: "lastPart (cleanPath ''./widgets/Comp.jsx'') = ''Comp.jsx''"
          "extension ''Comp.jsx'' = ''jsx''" "''jsx'' \<notin> set recognizedExtensions"
          "componentName ''Comp.jsx'' = ''Compjsx''"
    by (simp_all add: path_eval componentName_eq ascii_alnum_def)
  from unrecognized_extension_component[OF a b c] a e show ?thesis
    by (simp add: path_eval)
qed

text \<open>
  C9 as stated fails: with \<open>localImports = ["./Foo.tsx", "./Foo"]\<close> and the variant
  TSX, the first entry has the unrecognized extension \<open>tsx\<close>, but the file
  \<open>src/Foo.tsx\<close> of the tree is the ghost of the second entry, whose identifier is
  \<open>Foo\<close>, not \<open>Footsx\<close>.
\<close>

theorem unrecognized_extension_overwritten_counterexample:
  "localImports overwrittenConfig = [''./Foo.tsx'', ''./Foo''] \<and>
   CHR ''.'' \<in> set (lastPart (cleanPath ''./Foo.tsx'')) \<and>
   extension (lastPart (cleanPath ''./Foo.tsx'')) = ''tsx'' \<and>
   ''tsx'' \<notin> set recognizedExtensions \<and>
   cleanPath ''./Foo.tsx'' = ''Foo.tsx'' \<and>
   componentName (lastPart (cleanPath ''./Foo.tsx'')) = ''Footsx'' \<and>
   generateProjectZip overwrittenConfig TSX ''src/Foo.tsx'' =
     Some (Text (dummyContent ''Foo'' ''Foo'')) \<and>
   generateProjectZip overwrittenConfig TSX ''src/Foo.tsx'' \<noteq>
     Some (Text (dummyContent ''Foo.tsx'' ''Footsx''))"
proof -
  have t: "generateProjectZip overwrittenConfig TSX ''src/Foo.tsx'' =
     Some (Text (dummyContent ''Foo'' ''Foo''))"
    by (subst tree_ghost, simp)
       (simp add: ghostFiles_def overwrittenConfig_def ghostStep_apply colliding_ghosts)
  have d: "dummyContent ''Foo'' ''Foo'' \<noteq> dummyContent ''Foo.tsx'' ''Footsx''"
    by (simp add: dummyContent_def)
  from t d show ?thesis
    by (simp add: overwrittenConfig_def path_eval componentName_eq ascii_alnum_def)
qed

text \<open>
  C10. The tree does not depend on \<open>fileName\<close>. The user's content is written to
  \<open>src/App.tsx\<close> (TS, TSX) or \<open>src/App.jsx\<close>, whatever the file name, and stays there
  unless a ghost file takes that path.
\<close>

theorem generate_ignores_fileName:
  "generateProjectZip (cfg\<lparr>fileName := name\<rparr>) ft = generateProjectZip cfg ft \<and>
   appFileName ft = ''App'' @ componentExtension ft \<and>
   sourceFiles cfg ft z (''src/'' @ appFileName ft) = Some (Text (fileContent cfg)) \<and>
   ((\<forall>q \<in> set (localImports cfg). fst (ghostFile ft q) \<noteq> appFileName ft) \<longrightarrow>
      generateProjectZip cfg ft (''src/'' @ appFileName ft) = Some (Text (fileContent cfg)))"
proof -
  have a: "generateProjectZip (cfg\<lparr>fileName := name\<rparr>) ft = generateProjectZip cfg ft"
    by (simp add: generateProjectZip_def packageJson_def packageName_def
          mergedDependencies_def sourceFiles_def ghostFiles_def)
  have b: "appFileName ft = ''App'' @ componentExtension ft"
    by (simp add: appFileName_def componentExtension_def isTS_def)
  have c: "\<And>z. sourceFiles cfg ft z (''src/'' @ appFileName ft) = Some (Text (fileContent cfg))"
    by (simp add: sourceFiles_def src_file_def zip_file_def Let_def)
  have d: "(\<forall>q \<in> set (localImports cfg). fst (ghostFile ft q) \<noteq> appFileName ft) \<longrightarrow>
      generateProjectZip cfg ft (''src/'' @ appFileName ft) = Some (Text (fileContent cfg))"
  proof
    assume h: "\<forall>q \<in> set (localImports cfg). fst (ghostFile ft q) \<noteq> appFileName ft"
    have n: "''src/'' @ appFileName ft \<noteq> ''src/index.css''"
      by (simp add: appFileName_def)
    from h have "\<forall>q \<in> set (localImports cfg).
                   ''src/'' @ fst (ghostFile ft q) \<noteq> ''src/'' @ appFileName ft" by simp
    from ghost_fold_untouched[OF this] tree_ghost[OF n] c
    show "generateProjectZip cfg ft (''src/'' @ appFileName ft) = Some (Text (fileContent cfg))"
      by (simp add: ghostFiles_def)
  qed
  from a b c d show ?thesis by blast
qed

theorem generate_ignores_fileName_witness:
  "generateProjectZip (sampleConfig\<lparr>fileName := ''Other.jsx''\<rparr>) TSX =
     generateProjectZip sampleConfig TSX \<and>
   generateProjectZip sampleConfig TSX ''src/App.tsx'' =
     Some (Text ''export default function App() { return null }'')"
proof -
  have h: "\<forall>q \<in> set (localImports sampleConfig). fst (ghostFile TSX q) \<noteq> appFileName TSX"
    by (simp add: sampleConfig_def sample_ghosts appFileName_def isTS_def)
  have f: "fileContent sampleConfig = ''export default function App() { return null }''"
    by (simp add: sampleConfig_def)
  have a: "appFileName TSX = ''App.tsx''"
    by (simp add: appFileName_def isTS_def)
  note t = generate_ignores_fileName[where cfg = sampleConfig and name = "''Other.jsx''"
      and ft = TSX and z = Map.empty]
  from t have 1: "generateProjectZip (sampleConfig\<lparr>fileName := ''Other.jsx''\<rparr>) TSX =
     generateProjectZip sampleConfig TSX" by blast
  from t h have 2: "generateProjectZip sampleConfig TSX (''src/'' @ appFileName TSX) =
     Some (Text (fileContent sampleConfig))" by blast
  from 1 2 a f show ?thesis by simp
qed

end
